theory Spec2Isabelle
  imports Main "HOL-Library.Sublist"
begin

section \<open>Data model (types.ts)\<close>

text \<open>
  Strings of the program are modelled as \<^typ>\<open>string\<close>: the UTF-8 bytes of the text.
  The two delimiters the CSV code looks for, the comma and the double quote, are ASCII, and
  an ASCII byte never occurs inside the encoding of another character, so reading a string
  byte by byte finds them exactly where the program's character loop finds them.
\<close>

abbreviation DQUOTE :: char where "DQUOTE \<equiv> CHR 0x22"
abbreviation COMMA :: char where "COMMA \<equiv> CHR 0x2C"
abbreviation NEWLINE :: char where "NEWLINE \<equiv> CHR 0x0A"

datatype Role = admin | manager | user

record User =
  user_id :: string
  username :: string
  email :: string
  fullName :: "string option"
  role :: Role

datatype FieldType =
  T_text | T_number | T_date | T_boolean | T_textarea | T_project | T_user | T_image | T_file

record FieldDefinition =
  field_id :: string
  name :: string
  key :: string
  ftype :: FieldType
  required :: bool

datatype AccessLevel = public | restricted

record Category =
  cat_id :: string
  cat_name :: string
  cat_description :: string
  cat_fields :: "FieldDefinition list"
  cat_createdAt :: int
  accessLevel :: AccessLevel
  icon :: "string option"

text \<open>
  A value of type \<open>any\<close>, as it is stored under a field key of a record. Numbers are kept
  abstract (type \<open>'n\<close>): no property below depends on floating-point arithmetic.
\<close>

datatype 'n jsval =
    Undefined
  | Null
  | Bool bool
  | Num 'n
  | Str string
  | Arr "'n jsval list"
  | Obj "(string \<times> 'n jsval) list"

text \<open>
  \<open>data\<close> is a \<open>Record<string, any>\<close>: a finite map from field keys to values. The
  rows come from the store unchecked, and the code guards against a record without
  \<open>data\<close> (\<open>r.data ? ... : null\<close>, \<open>resource.data?.[key]\<close>), hence the option.
\<close>

record 'n ResourceItem =
  res_id :: string
  categoryId :: string
  data :: "(string \<rightharpoonup> 'n jsval) option"
  createdBy :: string
  createdAt :: int

datatype ProjectStatus = active | completed | paused

record Project =
  proj_id :: string
  proj_name :: string
  code :: string
  proj_description :: string
  status :: ProjectStatus
  proj_createdAt :: string

section \<open>The language's built-in operations\<close>

text \<open>
  What the runtime supplies and the program only calls, as parameters:
  \<^item> \<open>toLowerCase s\<close> is \<open>s.toLowerCase()\<close>;
  \<^item> \<open>numToString n\<close> is \<open>String(n)\<close> and \<open>numTruthy n\<close> the truth value of the
    number \<open>n\<close> in a condition;
  \<^item> \<open>numberNotEqual v s\<close> is \<open>Number(v) !== Number(s)\<close>;
  \<^item> \<open>parseDate s\<close> is the time value of \<open>new Date(s)\<close>, in milliseconds since the
    epoch, \<open>None\<close> for an invalid date;
  \<^item> \<open>LocalTZA\<close> is the offset of local time from UTC in milliseconds, taken as
    constant (no daylight saving change inside the period looked at);
  \<^item> \<open>toLocaleDateString v\<close> is \<open>new Date(v).toLocaleDateString('vi-VN')\<close> and
    \<open>toLocaleString t\<close> is \<open>new Date(t).toLocaleString('vi-VN')\<close>.
\<close>

record 'n platform =
  toLowerCase :: "string \<Rightarrow> string"
  numToString :: "'n \<Rightarrow> string"
  numTruthy :: "'n \<Rightarrow> bool"
  numberNotEqual :: "'n jsval \<Rightarrow> string \<Rightarrow> bool"
  parseDate :: "string \<Rightarrow> int option"
  LocalTZA :: int
  toLocaleDateString :: "'n jsval \<Rightarrow> string"
  toLocaleString :: "int \<Rightarrow> string"

text \<open>\<open>Array.prototype.join\<close> on an array of strings.\<close>

fun join :: "string \<Rightarrow> string list \<Rightarrow> string" where
  "join sep [] = []"
| "join sep [x] = x"
| "join sep (x # y # ys) = x @ sep @ join sep (y # ys)"

text \<open>
  \<open>String(v)\<close>. An array is converted by joining its elements with commas, where
  \<open>undefined\<close> and \<open>null\<close> elements give the empty string.
\<close>

fun toStr :: "'n platform \<Rightarrow> 'n jsval \<Rightarrow> string" where
  "toStr P Undefined = ''undefined''"
| "toStr P Null = ''null''"
| "toStr P (Bool b) = (if b then ''true'' else ''false'')"
| "toStr P (Num n) = numToString P n"
| "toStr P (Str s) = s"
| "toStr P (Arr xs) =
     join [COMMA] (map (\<lambda>x. case x of Undefined \<Rightarrow> [] | Null \<Rightarrow> [] | _ \<Rightarrow> toStr P x) xs)"
| "toStr P (Obj kvs) = ''[object Object]''"

text \<open>\<open>s.includes(t)\<close>: \<open>t\<close> occurs in \<open>s\<close> as a contiguous substring.\<close>

fun str_includes :: "string \<Rightarrow> string \<Rightarrow> bool" where
  "str_includes [] t = (t = [])"
| "str_includes (c # s) t = (prefix t (c # s) \<or> str_includes s t)"

text \<open>Reading a property of \<open>data\<close>: a key that is not there gives \<open>undefined\<close>.\<close>

definition get_prop :: "(string \<rightharpoonup> 'n jsval) \<Rightarrow> string \<Rightarrow> 'n jsval" where
  "get_prop d k = (case d k of None \<Rightarrow> Undefined | Some v \<Rightarrow> v)"

text \<open>
  \<open>String.prototype.trim\<close>. The white space and line terminator characters of the
  language, in their UTF-8 encodings: tab, line feed, vertical tab, form feed, carriage
  return, space, U+00A0, U+1680, U+2000 to U+200A, U+2028, U+2029, U+202F, U+205F,
  U+3000 and U+FEFF.
\<close>

definition ws_seqs :: "string list" where
  "ws_seqs =
     [[CHR 0x09], [CHR 0x0A], [CHR 0x0B], [CHR 0x0C], [CHR 0x0D], [CHR 0x20],
      [CHR 0xC2, CHR 0xA0], [CHR 0xE1, CHR 0x9A, CHR 0x80],
      [CHR 0xE2, CHR 0x80, CHR 0x80], [CHR 0xE2, CHR 0x80, CHR 0x81],
      [CHR 0xE2, CHR 0x80, CHR 0x82], [CHR 0xE2, CHR 0x80, CHR 0x83],
      [CHR 0xE2, CHR 0x80, CHR 0x84], [CHR 0xE2, CHR 0x80, CHR 0x85],
      [CHR 0xE2, CHR 0x80, CHR 0x86], [CHR 0xE2, CHR 0x80, CHR 0x87],
      [CHR 0xE2, CHR 0x80, CHR 0x88], [CHR 0xE2, CHR 0x80, CHR 0x89],
      [CHR 0xE2, CHR 0x80, CHR 0x8A], [CHR 0xE2, CHR 0x80, CHR 0xA8],
      [CHR 0xE2, CHR 0x80, CHR 0xA9], [CHR 0xE2, CHR 0x80, CHR 0xAF],
      [CHR 0xE2, CHR 0x81, CHR 0x9F], [CHR 0xE3, CHR 0x80, CHR 0x80],
      [CHR 0xEF, CHR 0xBB, CHR 0xBF]]"

text \<open>The length of the sequence of \<open>ws\<close> the string starts with, 0 when it starts with none.\<close>

definition match_len :: "string list \<Rightarrow> string \<Rightarrow> nat" where
  "match_len ws s = (case find (\<lambda>w. prefix w s) ws of None \<Rightarrow> 0 | Some w \<Rightarrow> length w)"

fun strip_leading :: "string list \<Rightarrow> string \<Rightarrow> string" where
  "strip_leading ws [] = []"
| "strip_leading ws (c # s) =
     (if match_len ws (c # s) = 0 then c # s
      else strip_leading ws (drop (match_len ws (c # s) - 1) s))"

definition trimStart :: "string \<Rightarrow> string" where
  "trimStart s = strip_leading ws_seqs s"

definition trimEnd :: "string \<Rightarrow> string" where
  "trimEnd s = rev (strip_leading (map rev ws_seqs) (rev s))"

definition trim :: "string \<Rightarrow> string" where
  "trim s = trimEnd (trimStart s)"

text \<open>\<open>s.split(sep)\<close> for a one-character separator.\<close>

fun split :: "char \<Rightarrow> string \<Rightarrow> string list" where
  "split sep [] = [[]]"
| "split sep (c # cs) =
     (if c = sep then [] # split sep cs
      else (case split sep cs of
              [] \<Rightarrow> [[c]]
            | x # xs \<Rightarrow> (c # x) # xs))"

text \<open>
  What \<open>Array.prototype.join\<close> makes of an element: the empty string for
  \<open>undefined\<close> and \<open>null\<close>, the string conversion otherwise.
\<close>

definition join_item :: "'n platform \<Rightarrow> 'n jsval \<Rightarrow> string" where
  "join_item P v = (case v of Undefined \<Rightarrow> [] | Null \<Rightarrow> [] | _ \<Rightarrow> toStr P v)"

text \<open>The truth value of a value in a condition.\<close>

definition truthy :: "'n platform \<Rightarrow> 'n jsval \<Rightarrow> bool" where
  "truthy P v =
     (case v of
        Undefined \<Rightarrow> False
      | Null \<Rightarrow> False
      | Bool b \<Rightarrow> b
      | Num n \<Rightarrow> numTruthy P n
      | Str s \<Rightarrow> s \<noteq> []
      | Arr xs \<Rightarrow> True
      | Obj kvs \<Rightarrow> True)"



section \<open>Permission helpers (PERMISSIONS in types.ts)\<close>

definition canEditResource :: "User \<Rightarrow> ('n, 'a) ResourceItem_scheme \<Rightarrow> bool" where
  "canEditResource u r =
     (if role u = admin \<or> role u = manager then True
      else createdBy r = username u)"

section \<open>CSV line parser (parseCSVLine in DataManager.tsx)\<close>

text \<open>
  The loop over the characters of the line, with its three variables: the toggle
  \<open>quote\<close>, the column under construction \<open>col\<close> and the columns finished so far
  \<open>arr\<close>. After the loop the last column is pushed.
\<close>

fun parseCSVLine_loop :: "bool \<Rightarrow> string \<Rightarrow> string list \<Rightarrow> string \<Rightarrow> string list" where
  "parseCSVLine_loop quote col arr [] = arr @ [col]"
| "parseCSVLine_loop quote col arr (c # cs) =
     (if c = DQUOTE then parseCSVLine_loop (\<not> quote) col arr cs
      else if c = COMMA \<and> \<not> quote then parseCSVLine_loop quote [] (arr @ [col]) cs
      else parseCSVLine_loop quote (col @ [c]) arr cs)"

definition parseCSVLine :: "string \<Rightarrow> string list" where
  "parseCSVLine str = parseCSVLine_loop False [] [] str"

text \<open>
  The state of the toggle when the character at position \<open>i\<close> of the line is read: on
  iff an odd number of double quotes precede it.
\<close>

definition in_quotes :: "string \<Rightarrow> nat \<Rightarrow> bool" where
  "in_quotes s i = odd (count_list (take i s) DQUOTE)"

text \<open>The positions of the commas that are read with the toggle off, in ascending order.\<close>

definition split_positions :: "string \<Rightarrow> nat list" where
  "split_positions s = filter (\<lambda>i. s ! i = COMMA \<and> \<not> in_quotes s i) [0..<length s]"

text \<open>
  The columns that a list of positions cuts out of a line: the characters of the line from
  position \<open>a\<close> up to, not including, position \<open>b\<close> form a segment; the line is cut at
  each position of the list, the character at the position itself belongs to no segment,
  and a column is a segment without its double quotes.
\<close>

definition unquoted :: "string \<Rightarrow> string" where
  "unquoted c = filter (\<lambda>x. x \<noteq> DQUOTE) c"

definition segment :: "string \<Rightarrow> nat \<Rightarrow> nat \<Rightarrow> string" where
  "segment s a b = take (b - a) (drop a s)"

definition columns_at :: "string \<Rightarrow> nat list \<Rightarrow> string list" where
  "columns_at s ps =
     map (\<lambda>(a, b). unquoted (segment s a b)) (zip (0 # map Suc ps) (ps @ [length s]))"

section \<open>Filter and query engine (filteredResources in DataManager.tsx)\<close>

text \<open>
  The filter inputs of the view. \<open>fieldFilters\<close> is the object of per-field filter values,
  given as its entries in the order in which \<open>for ... in\<close> enumerates them.
\<close>

record filters =
  filterCreator :: string
  filterDateFrom :: string
  filterDateTo :: string
  fieldFilters :: "(string \<times> string) list"

definition msPerDay :: int where
  "msPerDay = 86400000"

text \<open>
  \<open>Date.prototype.setHours(h, m, s, ms)\<close> on the time value \<open>t\<close>: the day is the day of
  \<open>t\<close> in local time, the time within the day is replaced, and the result is converted
  back to UTC.
\<close>

definition setHours :: "'n platform \<Rightarrow> int \<Rightarrow> int \<Rightarrow> int \<Rightarrow> int \<Rightarrow> int \<Rightarrow> int" where
  "setHours P h m s ms t =
     ((t + LocalTZA P) div msPerDay) * msPerDay
       + (h * 3600000 + m * 60000 + s * 1000 + ms) - LocalTZA P"

text \<open>
  The two creation-date tests. An unparsable filter string gives an invalid date, every
  comparison with it is false, and the record is not rejected.
\<close>

definition rejected_by_dateFrom :: "'n platform \<Rightarrow> string \<Rightarrow> int \<Rightarrow> bool" where
  "rejected_by_dateFrom P dateFrom itemDate =
     (if dateFrom \<noteq> [] then
        (case parseDate P dateFrom of
           None \<Rightarrow> False
         | Some t \<Rightarrow> itemDate < setHours P 0 0 0 0 t)
      else False)"

definition rejected_by_dateTo :: "'n platform \<Rightarrow> string \<Rightarrow> int \<Rightarrow> bool" where
  "rejected_by_dateTo P dateTo itemDate =
     (if dateTo \<noteq> [] then
        (case parseDate P dateTo of
           None \<Rightarrow> False
         | Some t \<Rightarrow> itemDate > setHours P 23 59 59 999 t)
      else False)"

text \<open>
  One pass of the body of the loop over \<open>fieldFilters\<close>, for the entry \<open>key\<close>,
  \<open>filterVal\<close>: \<open>Some b\<close> when the callback returns \<open>b\<close> in this pass, \<open>None\<close> when
  the loop goes on to the next entry.
\<close>

definition field_check ::
  "'n platform \<Rightarrow> Category \<Rightarrow> 'n ResourceItem \<Rightarrow> string \<Rightarrow> string \<Rightarrow> bool option" where
  "field_check P cat r k filterVal =
     (if filterVal = [] then None
      else
        let itemVal = (case data r of None \<Rightarrow> Null | Some d \<Rightarrow> get_prop d k) in
        if itemVal = Undefined \<or> itemVal = Null then Some False
        else
          (case find (\<lambda>f. key f = k) (cat_fields cat) of
             None \<Rightarrow> None
           | Some fieldDef \<Rightarrow>
               if ftype fieldDef = T_text \<or> ftype fieldDef = T_textarea then
                 (if \<not> str_includes (toLowerCase P (toStr P itemVal)) (toLowerCase P filterVal)
                  then Some False else None)
               else if ftype fieldDef = T_boolean then
                 (if toStr P itemVal \<noteq> filterVal then Some False else None)
               else if ftype fieldDef = T_user \<or> ftype fieldDef = T_project then
                 (case itemVal of
                    Arr xs \<Rightarrow>
                      if Str ''all'' \<in> set xs then Some True
                      else if Str filterVal \<notin> set xs then Some False
                      else None
                  | _ \<Rightarrow>
                      if toStr P itemVal \<noteq> ''all'' \<and> toStr P itemVal \<noteq> filterVal
                      then Some False else None)
               else if ftype fieldDef = T_number then
                 (if numberNotEqual P itemVal filterVal then Some False else None)
               else if ftype fieldDef = T_date then
                 (if toStr P itemVal \<noteq> filterVal then Some False else None)
               else None))"

fun fieldFilters_loop ::
  "'n platform \<Rightarrow> Category \<Rightarrow> 'n ResourceItem \<Rightarrow> (string \<times> string) list \<Rightarrow> bool" where
  "fieldFilters_loop P cat r [] = True"
| "fieldFilters_loop P cat r ((k, filterVal) # rest) =
     (case field_check P cat r k filterVal of
        Some b \<Rightarrow> b
      | None \<Rightarrow> fieldFilters_loop P cat r rest)"

text \<open>The callback given to \<open>resources.filter\<close>.\<close>

definition passes_filters ::
  "'n platform \<Rightarrow> filters \<Rightarrow> Category option \<Rightarrow> 'n ResourceItem \<Rightarrow> bool" where
  "passes_filters P fs selectedCategory r =
     (if filterCreator fs \<noteq> []
         \<and> \<not> str_includes (toLowerCase P (createdBy r)) (toLowerCase P (filterCreator fs))
      then False
      else if rejected_by_dateFrom P (filterDateFrom fs) (createdAt r) then False
      else if rejected_by_dateTo P (filterDateTo fs) (createdAt r) then False
      else
        (case selectedCategory of
           None \<Rightarrow> True
         | Some cat \<Rightarrow> fieldFilters_loop P cat r (fieldFilters fs)))"

definition filteredResources ::
  "'n platform \<Rightarrow> filters \<Rightarrow> Category option \<Rightarrow> 'n ResourceItem list \<Rightarrow> 'n ResourceItem list" where
  "filteredResources P fs selectedCategory resources =
     filter (passes_filters P fs selectedCategory) resources"

text \<open>
  What the properties of the filter speak about. An entry of \<open>fieldFilters\<close> is not
  failed by a record when its pass through the loop body does not return \<open>false\<close>; the
  local calendar day of a time value; and the day a date-only string denotes, which the
  language parses as midnight UTC of that day.
\<close>

definition field_filter_ok ::
  "'n platform \<Rightarrow> Category \<Rightarrow> 'n ResourceItem \<Rightarrow> string \<times> string \<Rightarrow> bool" where
  "field_filter_ok P cat r kv = (field_check P cat r (fst kv) (snd kv) \<noteq> Some False)"

definition creator_ok :: "'n platform \<Rightarrow> filters \<Rightarrow> 'n ResourceItem \<Rightarrow> bool" where
  "creator_ok P fs r =
     (filterCreator fs = []
      \<or> str_includes (toLowerCase P (createdBy r)) (toLowerCase P (filterCreator fs)))"

definition localDay :: "'n platform \<Rightarrow> int \<Rightarrow> int" where
  "localDay P t = (t + LocalTZA P) div msPerDay"

definition startOfLocalDay :: "'n platform \<Rightarrow> int \<Rightarrow> int" where
  "startOfLocalDay P d = d * msPerDay - LocalTZA P"

definition endOfLocalDay :: "'n platform \<Rightarrow> int \<Rightarrow> int" where
  "endOfLocalDay P d = d * msPerDay + (msPerDay - 1) - LocalTZA P"

definition denotes_day :: "'n platform \<Rightarrow> string \<Rightarrow> int \<Rightarrow> bool" where
  "denotes_day P s d = (s \<noteq> [] \<and> parseDate P s = Some (d * msPerDay))"

section \<open>Messages and labels\<close>

text \<open>The literal strings of the views, as UTF-8 bytes.\<close>

definition msg_category_error :: string where
  "msg_category_error = ''L'' @ [CHR 0xE1, CHR 0xBB, CHR 0x97] @ ''i x'' @ [CHR 0xC3, CHR 0xA1] @ ''c '' @ [CHR 0xC4, CHR 0x91, CHR 0xE1, CHR 0xBB, CHR 0x8B] @ ''nh danh m'' @ [CHR 0xE1, CHR 0xBB, CHR 0xA5] @ ''c''"

definition msg_please_enter :: string where
  "msg_please_enter = ''Vui l'' @ [CHR 0xC3, CHR 0xB2] @ ''ng nh'' @ [CHR 0xE1, CHR 0xBA, CHR 0xAD] @ ''p ''"

definition msg_save_ok :: string where
  "msg_save_ok = ''L'' @ [CHR 0xC6, CHR 0xB0] @ ''u d'' @ [CHR 0xE1, CHR 0xBB, CHR 0xAF] @ '' li'' @ [CHR 0xE1, CHR 0xBB, CHR 0x87] @ ''u th'' @ [CHR 0xC3, CHR 0xA0] @ ''nh c'' @ [CHR 0xC3, CHR 0xB4] @ ''ng''"

definition msg_save_failed :: string where
  "msg_save_failed = ''L'' @ [CHR 0xE1, CHR 0xBB, CHR 0x97] @ ''i l'' @ [CHR 0xC6, CHR 0xB0] @ ''u d'' @ [CHR 0xE1, CHR 0xBB, CHR 0xAF] @ '' li'' @ [CHR 0xE1, CHR 0xBB, CHR 0x87] @ ''u''"

definition audit_resource_saved :: string where
  "audit_resource_saved = ''L'' @ [CHR 0xC6, CHR 0xB0] @ ''u b'' @ [CHR 0xE1, CHR 0xBA, CHR 0xA3] @ ''n ghi trong danh m'' @ [CHR 0xE1, CHR 0xBB, CHR 0xA5] @ ''c ''"

definition msg_project_code_empty :: string where
  "msg_project_code_empty = ''M'' @ [CHR 0xC3, CHR 0xA3] @ '' d'' @ [CHR 0xE1, CHR 0xBB, CHR 0xB1] @ '' '' @ [CHR 0xC3, CHR 0xA1] @ ''n kh'' @ [CHR 0xC3, CHR 0xB4] @ ''ng '' @ [CHR 0xC4, CHR 0x91, CHR 0xC6, CHR 0xB0, CHR 0xE1, CHR 0xBB, CHR 0xA3] @ ''c '' @ [CHR 0xC4, CHR 0x91, CHR 0xE1, CHR 0xBB, CHR 0x83] @ '' tr'' @ [CHR 0xE1, CHR 0xBB, CHR 0x91] @ ''ng''"

definition msg_project_name_empty :: string where
  "msg_project_name_empty = ''T'' @ [CHR 0xC3, CHR 0xAA] @ ''n d'' @ [CHR 0xE1, CHR 0xBB, CHR 0xB1] @ '' '' @ [CHR 0xC3, CHR 0xA1] @ ''n kh'' @ [CHR 0xC3, CHR 0xB4] @ ''ng '' @ [CHR 0xC4, CHR 0x91, CHR 0xC6, CHR 0xB0, CHR 0xE1, CHR 0xBB, CHR 0xA3] @ ''c '' @ [CHR 0xC4, CHR 0x91, CHR 0xE1, CHR 0xBB, CHR 0x83] @ '' tr'' @ [CHR 0xE1, CHR 0xBB, CHR 0x91] @ ''ng''"

definition msg_project_code_exists :: string where
  "msg_project_code_exists = ''M'' @ [CHR 0xC3, CHR 0xA3] @ '' d'' @ [CHR 0xE1, CHR 0xBB, CHR 0xB1] @ '' '' @ [CHR 0xC3, CHR 0xA1] @ ''n n'' @ [CHR 0xC3, CHR 0xA0] @ ''y '' @ [CHR 0xC4, CHR 0x91, CHR 0xC3, CHR 0xA3] @ '' t'' @ [CHR 0xE1, CHR 0xBB, CHR 0x93] @ ''n t'' @ [CHR 0xE1, CHR 0xBA, CHR 0xA1] @ ''i, vui l'' @ [CHR 0xC3, CHR 0xB2] @ ''ng ch'' @ [CHR 0xE1, CHR 0xBB, CHR 0x8D] @ ''n m'' @ [CHR 0xC3, CHR 0xA3] @ '' kh'' @ [CHR 0xC3, CHR 0xA1] @ ''c''"

definition msg_project_saved :: string where
  "msg_project_saved = ''L'' @ [CHR 0xC6, CHR 0xB0] @ ''u d'' @ [CHR 0xE1, CHR 0xBB, CHR 0xB1] @ '' '' @ [CHR 0xC3, CHR 0xA1] @ ''n th'' @ [CHR 0xC3, CHR 0xA0] @ ''nh c'' @ [CHR 0xC3, CHR 0xB4] @ ''ng''"

definition msg_project_save_failed :: string where
  "msg_project_save_failed = ''L'' @ [CHR 0xE1, CHR 0xBB, CHR 0x97] @ ''i l'' @ [CHR 0xC6, CHR 0xB0] @ ''u d'' @ [CHR 0xE1, CHR 0xBB, CHR 0xB1] @ '' '' @ [CHR 0xC3, CHR 0xA1] @ ''n''"

definition audit_project_saved :: string where
  "audit_project_saved = ''L'' @ [CHR 0xC6, CHR 0xB0] @ ''u d'' @ [CHR 0xE1, CHR 0xBB, CHR 0xB1] @ '' '' @ [CHR 0xC3, CHR 0xA1] @ ''n: ''"






definition header_id :: string where
  "header_id = ''ID''"

definition header_creator :: string where
  "header_creator = ''Ng'' @ [CHR 0xC6, CHR 0xB0, CHR 0xE1, CHR 0xBB, CHR 0x9D] @ ''i t'' @ [CHR 0xE1, CHR 0xBA, CHR 0xA1] @ ''o''"

definition header_created :: string where
  "header_created = ''Ng'' @ [CHR 0xC3, CHR 0xA0] @ ''y t'' @ [CHR 0xE1, CHR 0xBA, CHR 0xA1] @ ''o''"

definition label_yes :: string where
  "label_yes = ''C'' @ [CHR 0xC3, CHR 0xB3]"

definition label_no :: string where
  "label_no = ''Kh'' @ [CHR 0xC3, CHR 0xB4] @ ''ng''"

definition label_all :: string where
  "label_all = ''T'' @ [CHR 0xE1, CHR 0xBA, CHR 0xA5] @ ''t c'' @ [CHR 0xE1, CHR 0xBA, CHR 0xA3] @ '' (All)''"



definition msg_export_no_category :: string where
  "msg_export_no_category = ''Vui l'' @ [CHR 0xC3, CHR 0xB2] @ ''ng ch'' @ [CHR 0xE1, CHR 0xBB, CHR 0x8D] @ ''n m'' @ [CHR 0xE1, CHR 0xBB, CHR 0x99] @ ''t danh m'' @ [CHR 0xE1, CHR 0xBB, CHR 0xA5] @ ''c '' @ [CHR 0xC4, CHR 0x91, CHR 0xE1, CHR 0xBB, CHR 0x83] @ '' xu'' @ [CHR 0xE1, CHR 0xBA, CHR 0xA5] @ ''t d'' @ [CHR 0xE1, CHR 0xBB, CHR 0xAF] @ '' li'' @ [CHR 0xE1, CHR 0xBB, CHR 0x87] @ ''u.''"

definition msg_export_ok :: string where
  "msg_export_ok = [CHR 0xC4, CHR 0x90, CHR 0xC3, CHR 0xA3] @ '' xu'' @ [CHR 0xE1, CHR 0xBA, CHR 0xA5] @ ''t file Excel (CSV) th'' @ [CHR 0xC3, CHR 0xA0] @ ''nh c'' @ [CHR 0xC3, CHR 0xB4] @ ''ng!''"

definition BOM :: string where
  "BOM = [CHR 0xEF, CHR 0xBB, CHR 0xBF]"

section \<open>The remote store and the state of a view\<close>

text \<open>
  The remote store is an external collaborator: each call sends a request and gets back
  either data or an error. A handler is run against the store's answers (\<open>remote\<close>)
  and leaves behind the calls it made that write (\<open>store_calls\<close>), in order, together
  with the toasts it raised and the flags of the view.
\<close>

record ProjectDraft =
  pd_id :: "string option"
  pd_name :: "string option"
  pd_code :: "string option"
  pd_description :: "string option"
  pd_status :: "ProjectStatus option"

record 'n remote =
  projects_rows :: "Project list"
  projects_select_error :: "string option"
  projects_upsert_error :: "ProjectDraft \<Rightarrow> string option"
  resources_upsert_error :: "'n ResourceItem \<Rightarrow> string option"

datatype AuditAction = LOGIN | CREATE | UPDATE | DELETE

datatype 'n store_call =
    UpsertResource "'n ResourceItem"
  | UpsertProject ProjectDraft
  | AuditLog AuditAction string string

datatype ToastType = toast_success | toast_error

record 'n view_state =
  toasts :: "(string \<times> ToastType) list"
  isModalOpen :: bool
  loading :: bool
  store_calls :: "'n store_call list"

definition showToast :: "string \<Rightarrow> ToastType \<Rightarrow> 'n view_state \<Rightarrow> 'n view_state" where
  "showToast msg ty st = st\<lparr>toasts := toasts st @ [(msg, ty)]\<rparr>"

text \<open>A string is truthy iff it is not empty; an optional string iff it is there and not empty.\<close>

definition truthy_str :: "string option \<Rightarrow> bool" where
  "truthy_str s = (case s of None \<Rightarrow> False | Some x \<Rightarrow> x \<noteq> [])"

section \<open>Saving a record through the form (handleSave in DataManager.tsx)\<close>

text \<open>
  \<open>dataService.saveResource\<close>: the upsert, an exception when the store answers with an
  error (\<open>Inl\<close>, with the message and the state reached), the audit entry otherwise.
\<close>

definition saveResource ::
  "'n remote \<Rightarrow> 'n ResourceItem \<Rightarrow> 'n view_state
     \<Rightarrow> (string \<times> 'n view_state) + 'n view_state" where
  "saveResource env resource st =
     (let st1 = st\<lparr>store_calls := store_calls st @ [UpsertResource resource]\<rparr> in
      case resources_upsert_error env resource of
        Some message \<Rightarrow> Inl (message, st1)
      | None \<Rightarrow>
          Inr (st1\<lparr>store_calls := store_calls st1
                 @ [AuditLog UPDATE ''Resource'' (audit_resource_saved @ categoryId resource)]\<rparr>))"

text \<open>
  The test applied to the value of a required field:
  \<open>val === undefined || val === '' || (Array.isArray(val) && val.length === 0)\<close>.
\<close>

definition is_blank :: "'n jsval \<Rightarrow> bool" where
  "is_blank val =
     (val = Undefined \<or> val = Str [] \<or> (case val of Arr xs \<Rightarrow> length xs = 0 | _ \<Rightarrow> False))"

text \<open>The values the validation contract calls missing or empty.\<close>

definition missing_or_empty :: "'n jsval \<Rightarrow> bool" where
  "missing_or_empty v = (v = Undefined \<or> v = Str [] \<or> v = Arr [])"

text \<open>
  The loop over the fields of the category: the first required field whose value is
  blank, \<open>None\<close> when the loop runs to its end.
\<close>

fun first_blank_required ::
  "(string \<rightharpoonup> 'n jsval) \<Rightarrow> FieldDefinition list \<Rightarrow> FieldDefinition option" where
  "first_blank_required formData [] = None"
| "first_blank_required formData (field # rest) =
     (if required field \<and> is_blank (get_prop formData (key field)) then Some field
      else first_blank_required formData rest)"

text \<open>\<open>currentResource\<close> is a \<open>Partial<ResourceItem>\<close>: every property may be absent.\<close>

record CurrentResource =
  cr_id :: "string option"
  cr_categoryId :: "string option"
  cr_createdBy :: "string option"
  cr_createdAt :: "int option"

text \<open>
  \<open>selectedCategory || categories.find(c => c.id === currentResource.categoryId)\<close>.
\<close>

definition catToUse ::
  "Category option \<Rightarrow> Category list \<Rightarrow> CurrentResource \<Rightarrow> Category option" where
  "catToUse selectedCategory categories currentResource =
     (case selectedCategory of
        Some c \<Rightarrow> Some c
      | None \<Rightarrow> find (\<lambda>c. Some (cat_id c) = cr_categoryId currentResource) categories)"

text \<open>
  The handler. \<open>uuid\<close> is what \<open>generateUUID()\<close> returns and \<open>now\<close> what
  \<open>Date.now()\<close> returns in this run.
\<close>

definition DataManager_handleSave ::
  "'n remote \<Rightarrow> string \<Rightarrow> int \<Rightarrow> User \<Rightarrow> Category option \<Rightarrow> Category list
     \<Rightarrow> CurrentResource \<Rightarrow> (string \<rightharpoonup> 'n jsval) \<Rightarrow> 'n view_state \<Rightarrow> 'n view_state" where
  "DataManager_handleSave env uuid now currentUser selectedCategory categories
       currentResource formData st =
     (case catToUse selectedCategory categories currentResource of
        None \<Rightarrow> showToast msg_category_error toast_error st
      | Some cat \<Rightarrow>
          (case first_blank_required formData (cat_fields cat) of
             Some field \<Rightarrow> showToast (msg_please_enter @ name field) toast_error st
           | None \<Rightarrow>
               (let resourceToSave =
                     \<lparr> res_id = (if truthy_str (cr_id currentResource)
                                  then the (cr_id currentResource) else uuid),
                       categoryId = cat_id cat,
                       data = Some formData,
                       createdBy =
                         (if truthy_str (cr_id currentResource)
                          then (if truthy_str (cr_createdBy currentResource)
                                then the (cr_createdBy currentResource)
                                else username currentUser)
                          else username currentUser),
                       createdAt =
                         (case cr_createdAt currentResource of
                            None \<Rightarrow> now
                          | Some t \<Rightarrow> if t = 0 then now else t) \<rparr>
               in case saveResource env resourceToSave st of
                    Inr st1 \<Rightarrow> showToast msg_save_ok toast_success (st1\<lparr>isModalOpen := False\<rparr>)
                  | Inl (message, st1) \<Rightarrow> showToast msg_save_failed toast_error st1)))"

section \<open>Saving a project (projectService in storage.ts, handleSave of ProjectManager)\<close>

text \<open>
  \<open>checkCodeExists\<close>: the ids of the rows with this code, leaving out the row
  \<open>excludeId\<close> when one is given; \<open>false\<close> when the query answers with an error.
\<close>

definition checkCodeExists :: "'n remote \<Rightarrow> string \<Rightarrow> string option \<Rightarrow> bool" where
  "checkCodeExists env c excludeId =
     (let rows = filter (\<lambda>p. code p = c) (projects_rows env);
          rows' = (if truthy_str excludeId
                   then filter (\<lambda>p. proj_id p \<noteq> the excludeId) rows else rows);
          data = map proj_id rows'
      in case projects_select_error env of
           Some message \<Rightarrow> False
         | None \<Rightarrow> length data > 0)"

text \<open>\<open>projectService.save\<close>.\<close>

definition projectService_save ::
  "'n remote \<Rightarrow> ProjectDraft \<Rightarrow> 'n view_state
     \<Rightarrow> (string \<times> 'n view_state) + 'n view_state" where
  "projectService_save env project st =
     (let st1 = st\<lparr>store_calls := store_calls st @ [UpsertProject project]\<rparr> in
      case projects_upsert_error env project of
        Some message \<Rightarrow> Inl (message, st1)
      | None \<Rightarrow>
          Inr (st1\<lparr>store_calls := store_calls st1
                 @ [AuditLog (if truthy_str (pd_id project) then UPDATE else CREATE) ''Project''
                      (audit_project_saved
                         @ (case pd_code project of None \<Rightarrow> ''undefined'' | Some c \<Rightarrow> c))]\<rparr>))"

text \<open>\<open>!s?.trim()\<close>: the property is absent, or empty once trimmed.\<close>

definition blank_after_trim :: "string option \<Rightarrow> bool" where
  "blank_after_trim s = (case s of None \<Rightarrow> True | Some x \<Rightarrow> trim x = [])"

definition ProjectManager_handleSave ::
  "'n remote \<Rightarrow> ProjectDraft \<Rightarrow> 'n view_state \<Rightarrow> 'n view_state" where
  "ProjectManager_handleSave env currentProject st =
     (if blank_after_trim (pd_code currentProject) then
        showToast msg_project_code_empty toast_error st
      else if blank_after_trim (pd_name currentProject) then
        showToast msg_project_name_empty toast_error st
      else if checkCodeExists env (the (pd_code currentProject)) (pd_id currentProject) then
        showToast msg_project_code_exists toast_error st
      else
        (case projectService_save env currentProject st of
           Inr st1 \<Rightarrow> showToast msg_project_saved toast_success (st1\<lparr>isModalOpen := False\<rparr>)
         | Inl (message, st1) \<Rightarrow> showToast msg_project_save_failed toast_error st1))"

section \<open>CSV export (handleExportCSV in DataManager.tsx)\<close>

definition display_name :: "User \<Rightarrow> string" where
  "display_name u = (if truthy_str (fullName u) then the (fullName u) else username u)"

definition getUserName :: "'n platform \<Rightarrow> User list \<Rightarrow> 'n jsval \<Rightarrow> 'n jsval" where
  "getUserName P users val =
     (case val of
        Arr ids \<Rightarrow>
          Str (join '', ''
                 (map (\<lambda>i. join_item P
                         (if i = Str ''all'' then Str label_all
                          else case find (\<lambda>usr. Str (user_id usr) = i) users of
                                 Some u \<Rightarrow> Str (display_name u)
                               | None \<Rightarrow> i))
                    ids))
      | _ \<Rightarrow>
          if val = Str ''all'' then Str label_all
          else case find (\<lambda>usr. Str (user_id usr) = val) users of
                 Some u \<Rightarrow> Str (display_name u)
               | None \<Rightarrow> val)"

definition getProjectName :: "'n platform \<Rightarrow> Project list \<Rightarrow> 'n jsval \<Rightarrow> 'n jsval" where
  "getProjectName P projects val =
     (case val of
        Arr ids \<Rightarrow>
          Str (join '', ''
                 (map (\<lambda>i. join_item P
                         (if i = Str ''all'' then Str label_all
                          else case find (\<lambda>proj. Str (proj_id proj) = i) projects of
                                 Some p \<Rightarrow> Str (code p)
                               | None \<Rightarrow> i))
                    ids))
      | _ \<Rightarrow>
          if val = Str ''all'' then Str label_all
          else case find (\<lambda>proj. Str (proj_id proj) = val) projects of
                 Some p \<Rightarrow> Str (code p @ '' - '' @ proj_name p)
               | None \<Rightarrow> val)"

text \<open>\<open>val.replace(/"/g, '""')\<close>.\<close>

definition double_quotes :: "string \<Rightarrow> string" where
  "double_quotes val = concat (map (\<lambda>c. if c = DQUOTE then [DQUOTE, DQUOTE] else [c]) val)"

text \<open>\<open>resource.data?.[k]\<close>.\<close>

definition data_prop :: "'n ResourceItem \<Rightarrow> string \<Rightarrow> 'n jsval" where
  "data_prop resource k = (case data resource of None \<Rightarrow> Undefined | Some d \<Rightarrow> get_prop d k)"

text \<open>The value the export puts into the column of field \<open>f\<close>.\<close>

definition export_cell ::
  "'n platform \<Rightarrow> User list \<Rightarrow> Project list \<Rightarrow> 'n ResourceItem \<Rightarrow> FieldDefinition
     \<Rightarrow> 'n jsval" where
  "export_cell P users projects resource f =
     (let val = data_prop resource (key f) in
      if ftype f = T_boolean then Str (if val = Str ''true'' then label_yes else label_no)
      else if ftype f = T_date then
        Str (if truthy P val then toLocaleDateString P val else [])
      else if ftype f = T_user then getUserName P users val
      else if ftype f = T_project then getProjectName P projects val
      else
        (case val of
           Str v \<Rightarrow> Str (DQUOTE # double_quotes v @ [DQUOTE])
         | Undefined \<Rightarrow> Str []
         | Null \<Rightarrow> Str []
         | _ \<Rightarrow> val))"

definition export_row ::
  "'n platform \<Rightarrow> User list \<Rightarrow> Project list \<Rightarrow> Category \<Rightarrow> 'n ResourceItem \<Rightarrow> string" where
  "export_row P users projects cat resource =
     join [COMMA]
       (map (join_item P)
          (Str (res_id resource)
             # map (export_cell P users projects resource) (cat_fields cat)
             @ [Str (createdBy resource), Str (toLocaleString P (createdAt resource))]))"

definition export_headers :: "Category \<Rightarrow> string list" where
  "export_headers cat = header_id # map name (cat_fields cat) @ [header_creator, header_created]"

definition csvContent ::
  "'n platform \<Rightarrow> User list \<Rightarrow> Project list \<Rightarrow> Category \<Rightarrow> 'n ResourceItem list \<Rightarrow> string" where
  "csvContent P users projects cat resources =
     BOM @ join [NEWLINE]
             (join [COMMA] (export_headers cat) # map (export_row P users projects cat) resources)"

text \<open>
  The handler, up to the text it hands to the browser for download; \<open>resources\<close> is
  the filtered list.
\<close>

definition handleExportCSV ::
  "'n platform \<Rightarrow> User list \<Rightarrow> Project list \<Rightarrow> Category option \<Rightarrow> 'n ResourceItem list
     \<Rightarrow> 'n view_state \<Rightarrow> string option \<times> 'n view_state" where
  "handleExportCSV P users projects selectedCategory resources st =
     (case selectedCategory of
        None \<Rightarrow> (None, showToast msg_export_no_category toast_error st)
      | Some cat \<Rightarrow>
          (Some (csvContent P users projects cat resources),
           showToast msg_export_ok toast_success st))"

section \<open>CSV import (handleFileUpload in DataManager.tsx)\<close>











section \<open>Conditions of the CSV round trip\<close>








section \<open>An instance of the built-in operations\<close>

text \<open>
  A concrete runtime, used to run the definitions on examples: case mapping of the ASCII
  letters, integers for numbers, ISO date-only strings (\<open>YYYY-MM-DD\<close>, read as midnight
  UTC), and the day/month/year formats of the \<open>vi-VN\<close> locale, in the time zone whose
  offset from UTC is given. \<open>example_platform\<close> is the one at UTC+7.
\<close>

definition ascii_lower :: "char \<Rightarrow> char" where
  "ascii_lower c =
     (case map_of (zip ''ABCDEFGHIJKLMNOPQRSTUVWXYZ'' ''abcdefghijklmnopqrstuvwxyz'') c of
        None \<Rightarrow> c
      | Some l \<Rightarrow> l)"

definition digit_val :: "char \<Rightarrow> int option" where
  "digit_val c =
     map_of [(CHR ''0'', 0), (CHR ''1'', 1), (CHR ''2'', 2), (CHR ''3'', 3), (CHR ''4'', 4),
             (CHR ''5'', 5), (CHR ''6'', 6), (CHR ''7'', 7), (CHR ''8'', 8), (CHR ''9'', 9)] c"

fun parse_digits :: "int \<Rightarrow> string \<Rightarrow> int option" where
  "parse_digits acc [] = Some acc"
| "parse_digits acc (c # cs) =
     (case digit_val c of None \<Rightarrow> None | Some v \<Rightarrow> parse_digits (10 * acc + v) cs)"

text \<open>The decimal digits of an integer that is not negative.\<close>

function show_digits :: "int \<Rightarrow> string" where
  "show_digits v =
     (if v < 10 then [''0123456789'' ! nat v]
      else show_digits (v div 10) @ [''0123456789'' ! nat (v mod 10)])"
  by pat_completeness auto

termination
  by (relation "measure nat") auto

declare show_digits.simps [simp del]

definition show_int :: "int \<Rightarrow> string" where
  "show_int v = (if v < 0 then CHR ''-'' # show_digits (- v) else show_digits v)"

definition two_digits :: "int \<Rightarrow> string" where
  "two_digits v = [''0123456789'' ! nat (v div 10 mod 10), ''0123456789'' ! nat (v mod 10)]"

text \<open>Days since 1 January 1970 of a civil date, and back (proleptic Gregorian calendar).\<close>

definition days_from_civil :: "int \<Rightarrow> int \<Rightarrow> int \<Rightarrow> int" where
  "days_from_civil y m d =
     (let y' = (if m \<le> 2 then y - 1 else y);
          era = y' div 400;
          yoe = y' - era * 400;
          doy = (153 * (if m > 2 then m - 3 else m + 9) + 2) div 5 + d - 1;
          doe = yoe * 365 + yoe div 4 - yoe div 100 + doy
      in era * 146097 + doe - 719468)"

definition civil_from_days :: "int \<Rightarrow> int \<times> int \<times> int" where
  "civil_from_days z0 =
     (let z = z0 + 719468;
          era = z div 146097;
          doe = z - era * 146097;
          yoe = (doe - doe div 1460 + doe div 36524 - doe div 146096) div 365;
          doy = doe - (365 * yoe + yoe div 4 - yoe div 100);
          mp = (5 * doy + 2) div 153;
          d = doy - (153 * mp + 2) div 5 + 1;
          m = (if mp < 10 then mp + 3 else mp - 9);
          y = yoe + era * 400
      in (if m \<le> 2 then y + 1 else y, m, d))"

definition parse_iso_date :: "string \<Rightarrow> int option" where
  "parse_iso_date s =
     (if length s = 10 \<and> s ! 4 = CHR ''-'' \<and> s ! 7 = CHR ''-'' then
        (case (parse_digits 0 (take 4 s), parse_digits 0 (take 2 (drop 5 s)),
               parse_digits 0 (drop 8 s)) of
           (Some y, Some m, Some d) \<Rightarrow>
             if 1 \<le> m \<and> m \<le> 12 \<and> 1 \<le> d \<and> d \<le> 31
             then Some (days_from_civil y m d * msPerDay) else None
         | _ \<Rightarrow> None)
      else None)"

definition format_date :: "int \<Rightarrow> string" where
  "format_date localTime =
     (case civil_from_days (localTime div msPerDay) of
        (y, m, d) \<Rightarrow> show_int d @ ''/'' @ show_int m @ ''/'' @ show_int y)"

definition format_date_time :: "int \<Rightarrow> string" where
  "format_date_time localTime =
     (let t = localTime mod msPerDay in
        two_digits (t div 3600000) @ '':'' @ two_digits (t div 60000 mod 60) @ '':''
          @ two_digits (t div 1000 mod 60) @ '' '' @ format_date localTime)"

definition example_Number :: "int jsval \<Rightarrow> int option" where
  "example_Number v =
     (case v of
        Num n \<Rightarrow> Some n
      | Str s \<Rightarrow> (case s of
                    c # cs \<Rightarrow> if c = CHR ''-'' \<and> cs \<noteq> [] then map_option uminus (parse_digits 0 cs)
                              else parse_digits 0 s
                  | [] \<Rightarrow> Some 0)
      | Bool b \<Rightarrow> Some (if b then 1 else 0)
      | Null \<Rightarrow> Some 0
      | _ \<Rightarrow> None)"

definition example_numTruthy :: "int \<Rightarrow> bool" where
  "example_numTruthy n = (n \<noteq> 0)"

definition example_numberNotEqual :: "int jsval \<Rightarrow> string \<Rightarrow> bool" where
  "example_numberNotEqual v s =
     (case (example_Number v, example_Number (Str s)) of
        (Some a, Some b) \<Rightarrow> a \<noteq> b
      | _ \<Rightarrow> True)"

definition example_toLocaleDateString :: "int \<Rightarrow> int jsval \<Rightarrow> string" where
  "example_toLocaleDateString tza v =
     (case v of
        Str s \<Rightarrow> (case parse_iso_date s of
                     Some t \<Rightarrow> format_date (t + tza)
                   | None \<Rightarrow> ''Invalid Date'')
      | Num n \<Rightarrow> format_date (n + tza)
      | _ \<Rightarrow> ''Invalid Date'')"

definition example_toLocaleString :: "int \<Rightarrow> int \<Rightarrow> string" where
  "example_toLocaleString tza t = format_date_time (t + tza)"

definition example_platform_at :: "int \<Rightarrow> int platform" where
  "example_platform_at tza =
     \<lparr> toLowerCase = map ascii_lower,
       numToString = show_int,
       numTruthy = example_numTruthy,
       numberNotEqual = example_numberNotEqual,
       parseDate = parse_iso_date,
       LocalTZA = tza,
       toLocaleDateString = example_toLocaleDateString tza,
       toLocaleString = example_toLocaleString tza \<rparr>"

definition example_platform :: "int platform" where
  "example_platform = example_platform_at 25200000"

section \<open>Example data\<close>

definition example_category :: Category where
  "example_category =
     \<lparr> cat_id = ''c1'', cat_name = ''Equipment'', cat_description = [],
       cat_fields =
         [\<lparr>field_id = ''f1'', name = ''Name'', key = ''name_key'', ftype = T_text, required = True\<rparr>,
          \<lparr>field_id = ''f2'', name = ''Project'', key = ''proj_key'', ftype = T_project, required = False\<rparr>,
          \<lparr>field_id = ''f3'', name = ''Active'', key = ''active_key'', ftype = T_boolean, required = False\<rparr>],
       cat_createdAt = 0, accessLevel = public, icon = None \<rparr>"

definition example_resource :: "'n ResourceItem" where
  "example_resource =
     \<lparr> res_id = ''r1'', categoryId = ''c1'',
       data = Some (map_of [(''name_key'', Str ''Laptop''),
                            (''proj_key'', Arr [Str ''all'']),
                            (''active_key'', Str ''true'')]),
       createdBy = ''ann'', createdAt = 147600000 \<rparr>"

definition example_filters :: filters where
  "example_filters =
     \<lparr> filterCreator = [], filterDateFrom = [], filterDateTo = [],
       fieldFilters = [(''proj_key'', ''P1''), (''active_key'', ''false'')] \<rparr>"

definition example_day_filters :: filters where
  "example_day_filters =
     \<lparr> filterCreator = [], filterDateFrom = ''1970-01-02'', filterDateTo = ''1970-01-02'',
       fieldFilters = [] \<rparr>"

definition example_remote :: "'n remote" where
  "example_remote =
     \<lparr> projects_rows =
         [\<lparr>proj_id = ''p1'', proj_name = ''Alpha'', code = ''PRJ-001'', proj_description = [],
           status = active, proj_createdAt = ''2024-01-01T00:00:00Z''\<rparr>],
       projects_select_error = None,
       projects_upsert_error = (\<lambda>p. None),
       resources_upsert_error = (\<lambda>r. None) \<rparr>"

definition example_state :: "'n view_state" where
  "example_state = \<lparr> toasts = [], isModalOpen = True, loading = False, store_calls = [] \<rparr>"

definition example_user :: User where
  "example_user =
     \<lparr> user_id = ''u1'', username = ''ann'', email = ''ann@example.org'', fullName = None,
       role = manager \<rparr>"

definition example_draft :: ProjectDraft where
  "example_draft =
     \<lparr> pd_id = None, pd_name = Some ''Beta'', pd_code = Some ''PRJ-001'',
       pd_description = Some [], pd_status = Some active \<rparr>"











text \<open>Two lines: \<open>"a,b",c\<close> and \<open>x,"a,""b",y\<close>.\<close>

definition example_line_quoted :: string where
  "example_line_quoted = [DQUOTE, CHR ''a'', COMMA, CHR ''b'', DQUOTE, COMMA, CHR ''c'']"

definition example_line_doubled :: string where
  "example_line_doubled =
     [CHR ''x'', COMMA, DQUOTE, CHR ''a'', COMMA, DQUOTE, DQUOTE, CHR ''b'', DQUOTE, COMMA,
      CHR ''y'']"

text \<open>
  Records that differ in what they store under the project field, and a filter state
  whose only filter asks for the project \<open>P1\<close>.
\<close>

definition project_record :: "string \<Rightarrow> 'n jsval \<Rightarrow> 'n ResourceItem" where
  "project_record i v =
     \<lparr> res_id = i, categoryId = ''c1'', data = Some (map_of [(''proj_key'', v)]),
       createdBy = ''ann'', createdAt = 0 \<rparr>"

definition example_project_records :: "'n ResourceItem list" where
  "example_project_records =
     [project_record ''r2'' (Arr [Str ''P7'', Str ''all'']),
      project_record ''r3'' (Arr [Str ''P7'', Str ''P1'']),
      project_record ''r4'' (Arr [Str ''P7'']),
      project_record ''r5'' (Str ''all''),
      project_record ''r6'' (Str ''P7'')]"

definition example_project_filter :: filters where
  "example_project_filter =
     \<lparr> filterCreator = [], filterDateFrom = [], filterDateTo = [],
       fieldFilters = [(''proj_key'', ''P1'')] \<rparr>"





section \<open>Theorems\<close>

subsection \<open>Permissions\<close>

text \<open>
  C7. \<open>canEditResource\<close> is a total function of the user and the resource: an admin or a
  manager may edit every resource, a plain user exactly the resources whose creator is
  the user's own username.
\<close>

theorem canEditResource_spec:
  "(role u = admin \<or> role u = manager \<longrightarrow> canEditResource u r)
   \<and> (role u = user \<longrightarrow> canEditResource u r = (createdBy r = username u))"
  by (simp add: canEditResource_def)

theorem canEditResource_spec_witness:
  "canEditResource \<lparr>user_id = ''1'', username = ''root'', email = ''r@x'', fullName = None, role = admin\<rparr>
     \<lparr>res_id = ''r1'', categoryId = ''c'', data = None, createdBy = ''ann'', createdAt = 0\<rparr>
   \<and> canEditResource \<lparr>user_id = ''2'', username = ''ann'', email = ''a@x'', fullName = None, role = user\<rparr>
     \<lparr>res_id = ''r1'', categoryId = ''c'', data = None, createdBy = ''ann'', createdAt = 0\<rparr>
   \<and> \<not> canEditResource \<lparr>user_id = ''3'', username = ''bob'', email = ''b@x'', fullName = None, role = user\<rparr>
     \<lparr>res_id = ''r1'', categoryId = ''c'', data = None, createdBy = ''ann'', createdAt = 0\<rparr>"
  using
    canEditResource_spec [of "\<lparr>user_id = ''1'', username = ''root'', email = ''r@x'', fullName = None, role = admin\<rparr>"
      "\<lparr>res_id = ''r1'', categoryId = ''c'', data = None, createdBy = ''ann'', createdAt = 0\<rparr>"]
    canEditResource_spec [of "\<lparr>user_id = ''2'', username = ''ann'', email = ''a@x'', fullName = None, role = user\<rparr>"
      "\<lparr>res_id = ''r1'', categoryId = ''c'', data = None, createdBy = ''ann'', createdAt = 0\<rparr>"]
    canEditResource_spec [of "\<lparr>user_id = ''3'', username = ''bob'', email = ''b@x'', fullName = None, role = user\<rparr>"
      "\<lparr>res_id = ''r1'', categoryId = ''c'', data = None, createdBy = ''ann'', createdAt = 0\<rparr>"]
  by simp

subsection \<open>CSV line parser\<close>

lemma join_snoc: "xs \<noteq> [] \<Longrightarrow> join sep (xs @ [y]) = join sep xs @ sep @ y"
  by (induction sep xs rule: join.induct) auto

lemma join_snoc_char: "join sep (arr @ [col @ [c]]) = join sep (arr @ [col]) @ [c]"
  by (cases "arr = []") (simp_all add: join_snoc)

lemma parseCSVLine_loop_join:
  "join [COMMA] (parseCSVLine_loop q col arr cs)
     = join [COMMA] (arr @ [col]) @ filter (\<lambda>c. c \<noteq> DQUOTE) cs"
proof (induction cs arbitrary: q col arr)
  case Nil
  show ?case by simp
next
  case (Cons c cs)
  show ?case
  proof (cases "c = DQUOTE")
    case True
    then show ?thesis using Cons.IH [of "\<not> q" col arr] by simp
  next
    case notq: False
    show ?thesis
    proof (cases "c = COMMA \<and> \<not> q")
      case True
      have "join [COMMA] ((arr @ [col]) @ [[]]) = join [COMMA] (arr @ [col]) @ [COMMA] @ []"
        by (rule join_snoc) simp
      then show ?thesis using True notq Cons.IH [of q "[]" "arr @ [col]"] by simp
    next
      case False
      then show ?thesis
        using notq Cons.IH [of q "col @ [c]" arr] by (auto simp: join_snoc_char)
    qed
  qed
qed

lemma parseCSVLine_loop_no_quote:
  "DQUOTE \<notin> set col \<Longrightarrow> \<forall>f \<in> set arr. DQUOTE \<notin> set f
   \<Longrightarrow> f \<in> set (parseCSVLine_loop q col arr cs) \<Longrightarrow> DQUOTE \<notin> set f"
proof (induction cs arbitrary: q col arr)
  case Nil
  then show ?case by auto
next
  case (Cons c cs)
  show ?case
  proof (cases "c = DQUOTE")
    case True
    then show ?thesis using Cons.IH [of col arr "\<not> q"] Cons.prems by simp
  next
    case notq: False
    show ?thesis
    proof (cases "c = COMMA \<and> \<not> q")
      case True
      then show ?thesis
        using notq Cons.IH [of "[]" "arr @ [col]" q] Cons.prems by simp
    next
      case False
      have "DQUOTE \<notin> set (col @ [c])" using notq Cons.prems(1) by simp
      then show ?thesis
        using False notq Cons.IH [of "col @ [c]" arr q] Cons.prems by auto
    qed
  qed
qed

lemma parseCSVLine_loop_length:
  "length (parseCSVLine_loop (odd (count_list p DQUOTE)) col arr cs)
     = Suc (length arr)
       + length (filter (\<lambda>i. (p @ cs) ! i = COMMA \<and> \<not> in_quotes (p @ cs) i)
                   [length p..<length p + length cs])"
proof (induction cs arbitrary: p col arr)
  case Nil
  show ?case by simp
next
  case (Cons c cs)
  define F where "F = (\<lambda>i. (p @ c # cs) ! i = COMMA \<and> \<not> in_quotes (p @ c # cs) i)"
  define rest where "rest = length (filter F [Suc (length p)..<Suc (length p) + length cs])"
  have IH: "length (parseCSVLine_loop (odd (count_list (p @ [c]) DQUOTE)) col' arr' cs)
              = Suc (length arr') + rest" for col' arr'
    using Cons.IH [of "p @ [c]" col' arr'] by (simp add: F_def rest_def)
  have here: "F (length p) = (c = COMMA \<and> even (count_list p DQUOTE))"
    by (simp add: F_def in_quotes_def)
  have rng: "[length p..<length p + length (c # cs)]
               = length p # [Suc (length p)..<Suc (length p) + length cs]"
    using upt_conv_Cons [of "length p" "length p + length (c # cs)"] by simp
  have goal: "length (filter F [length p..<length p + length (c # cs)])
                = (if c = COMMA \<and> even (count_list p DQUOTE) then Suc rest else rest)"
    unfolding rng by (simp add: here rest_def)
  show ?case
  proof (cases "c = DQUOTE")
    case True
    then have "odd (count_list (p @ [c]) DQUOTE) = (\<not> odd (count_list p DQUOTE))" by simp
    then show ?thesis
      using True IH [of col arr] goal unfolding F_def by simp
  next
    case False
    then have par: "odd (count_list (p @ [c]) DQUOTE) = odd (count_list p DQUOTE)" by simp
    show ?thesis
    proof (cases "c = COMMA \<and> \<not> odd (count_list p DQUOTE)")
      case True
      then show ?thesis
        using False par IH [of "[]" "arr @ [col]"] goal unfolding F_def by simp
    next
      case nosplit: False
      then show ?thesis
        using False par IH [of "col @ [c]" arr] goal unfolding F_def by auto
    qed
  qed
qed

lemma parseCSVLine_loop_columns:
  "a \<le> length p \<Longrightarrow>
   parseCSVLine_loop (odd (count_list p DQUOTE)) (unquoted (drop a p)) arr cs
     = arr @ map (\<lambda>(x, y). unquoted (segment (p @ cs) x y))
               (zip (a # map Suc (filter (\<lambda>i. (p @ cs) ! i = COMMA \<and> \<not> in_quotes (p @ cs) i)
                                     [length p..<length p + length cs]))
                    (filter (\<lambda>i. (p @ cs) ! i = COMMA \<and> \<not> in_quotes (p @ cs) i)
                        [length p..<length p + length cs] @ [length (p @ cs)]))"
proof (induction cs arbitrary: p a arr)
  case Nil
  then show ?case by (simp add: segment_def)
next
  case (Cons c cs)
  define F where "F = (\<lambda>i. (p @ c # cs) ! i = COMMA \<and> \<not> in_quotes (p @ c # cs) i)"
  define ps where "ps = filter F [Suc (length p)..<Suc (length p) + length cs]"
  define G where "G = (\<lambda>(x, y). unquoted (segment (p @ c # cs) x y))"
  have a': "a \<le> length (p @ [c])" using Cons.prems by simp
  have IH: "a' \<le> length (p @ [c]) \<Longrightarrow>
            parseCSVLine_loop (odd (count_list (p @ [c]) DQUOTE)) (unquoted (drop a' (p @ [c]))) arr' cs
              = arr' @ map G (zip (a' # map Suc ps) (ps @ [length (p @ c # cs)]))" for a' arr'
    using Cons.IH [of a' "p @ [c]" arr'] by (simp add: F_def ps_def G_def)
  have here: "F (length p) = (c = COMMA \<and> even (count_list p DQUOTE))"
    by (simp add: F_def in_quotes_def)
  have rng: "[length p..<length p + length (c # cs)]
               = length p # [Suc (length p)..<Suc (length p) + length cs]"
    using upt_conv_Cons [of "length p" "length p + length (c # cs)"] by simp
  have flt: "filter F [length p..<length p + length (c # cs)]
               = (if c = COMMA \<and> even (count_list p DQUOTE) then length p # ps else ps)"
    unfolding rng by (simp add: here ps_def)
  have dr: "drop a (p @ [c]) = drop a p @ [c]" using Cons.prems by simp
  have goal: "parseCSVLine_loop (odd (count_list p DQUOTE)) (unquoted (drop a p)) arr (c # cs)
                = arr @ map G (zip (a # map Suc (filter F [length p..<length p + length (c # cs)]))
                                   (filter F [length p..<length p + length (c # cs)]
                                      @ [length (p @ c # cs)]))"
  proof (cases "c = DQUOTE")
    case True
    then have par: "odd (count_list (p @ [c]) DQUOTE) = (\<not> odd (count_list p DQUOTE))" by simp
    have col: "unquoted (drop a (p @ [c])) = unquoted (drop a p)"
      using True unfolding dr unquoted_def by simp
    have "parseCSVLine_loop (odd (count_list p DQUOTE)) (unquoted (drop a p)) arr (c # cs)
            = parseCSVLine_loop (odd (count_list (p @ [c]) DQUOTE))
                (unquoted (drop a (p @ [c]))) arr cs"
      unfolding col par using True by simp
    also have "\<dots> = arr @ map G (zip (a # map Suc ps) (ps @ [length (p @ c # cs)]))"
      by (rule IH [OF a'])
    finally show ?thesis
      unfolding flt using True by simp
  next
    case notq: False
    then have par: "odd (count_list (p @ [c]) DQUOTE) = odd (count_list p DQUOTE)" by simp
    show ?thesis
    proof (cases "c = COMMA \<and> even (count_list p DQUOTE)")
      case True
      have seg: "segment (p @ c # cs) a (length p) = drop a p"
        using Cons.prems by (simp add: segment_def)
      have "parseCSVLine_loop (odd (count_list p DQUOTE)) (unquoted (drop a p)) arr (c # cs)
              = parseCSVLine_loop (odd (count_list (p @ [c]) DQUOTE))
                  (unquoted (drop (length (p @ [c])) (p @ [c]))) (arr @ [unquoted (drop a p)]) cs"
        using True notq par by (simp add: unquoted_def)
      also have "\<dots> = (arr @ [unquoted (drop a p)])
                         @ map G (zip (length (p @ [c]) # map Suc ps) (ps @ [length (p @ c # cs)]))"
        by (rule IH) simp
      finally show ?thesis
        unfolding flt using True seg by (simp add: G_def)
    next
      case False
      have col: "unquoted (drop a (p @ [c])) = unquoted (drop a p) @ [c]"
        using notq unfolding dr unquoted_def by simp
      have "parseCSVLine_loop (odd (count_list p DQUOTE)) (unquoted (drop a p)) arr (c # cs)
              = parseCSVLine_loop (odd (count_list (p @ [c]) DQUOTE))
                  (unquoted (drop a (p @ [c]))) arr cs"
        using False notq par col by auto
      also have "\<dots> = arr @ map G (zip (a # map Suc ps) (ps @ [length (p @ c # cs)]))"
        by (rule IH [OF a'])
      finally show ?thesis
        unfolding flt using False by auto
    qed
  qed
  show ?case using goal unfolding F_def G_def by simp
qed

lemma parseCSVLine_columns: "parseCSVLine s = columns_at s (split_positions s)"
  using parseCSVLine_loop_columns [of 0 "[]" "[]" s]
  by (simp add: parseCSVLine_def columns_at_def split_positions_def unquoted_def)

lemma in_quotes_step:
  "i < length s \<Longrightarrow>
   in_quotes s (Suc i) = (if s ! i = DQUOTE then \<not> in_quotes s i else in_quotes s i)"
  by (simp add: in_quotes_def take_Suc_conv_app_nth)

text \<open>
  C6. The state of the toggle starts off and is flipped by every double quote and by
  nothing else. The line is split at exactly the commas that are read with the state off:
  the columns are the segments of the line between these commas, each without its double
  quotes. So a comma read with the state on stays inside its column, every double quote
  is consumed (a doubled quote inside a quoted column is not an escape, both characters
  are dropped), no parsed column contains one, and the columns joined by commas are the
  line without its double quotes.
\<close>

theorem parseCSVLine_toggle:
  "parseCSVLine s = columns_at s (split_positions s)
   \<and> \<not> in_quotes s 0
   \<and> (\<forall>i < length s.
          in_quotes s (Suc i) = (if s ! i = DQUOTE then \<not> in_quotes s i else in_quotes s i))
   \<and> (\<forall>i. (i \<in> set (split_positions s)) = (i < length s \<and> s ! i = COMMA \<and> \<not> in_quotes s i))
   \<and> (\<forall>f \<in> set (parseCSVLine s). DQUOTE \<notin> set f)
   \<and> join [COMMA] (parseCSVLine s) = filter (\<lambda>c. c \<noteq> DQUOTE) s
   \<and> length (parseCSVLine s) = Suc (length (split_positions s))"
proof (intro conjI ballI allI impI)
  show "parseCSVLine s = columns_at s (split_positions s)"
    by (rule parseCSVLine_columns)
  show "\<not> in_quotes s 0"
    by (simp add: in_quotes_def)
next
  fix i assume "i < length s"
  then show "in_quotes s (Suc i) = (if s ! i = DQUOTE then \<not> in_quotes s i else in_quotes s i)"
    by (rule in_quotes_step)
next
  fix i
  show "(i \<in> set (split_positions s)) = (i < length s \<and> s ! i = COMMA \<and> \<not> in_quotes s i)"
    by (auto simp: split_positions_def)
next
  fix f assume "f \<in> set (parseCSVLine s)"
  then show "DQUOTE \<notin> set f"
    unfolding parseCSVLine_def
    using parseCSVLine_loop_no_quote [of "[]" "[]" f False s] by simp
next
  show "join [COMMA] (parseCSVLine s) = filter (\<lambda>c. c \<noteq> DQUOTE) s"
    unfolding parseCSVLine_def by (simp add: parseCSVLine_loop_join)
next
  show "length (parseCSVLine s) = Suc (length (split_positions s))"
    unfolding parseCSVLine_def split_positions_def
    using parseCSVLine_loop_length [of "[]" "[]" "[]" s] by simp
qed

text \<open>
  On the line \<open>"a,b",c\<close> the comma at position 2 is read with the state on and does
  not split, the comma at position 5 does. On \<open>x,"a,""b",y\<close> the doubled quote
  disappears.
\<close>

theorem parseCSVLine_toggle_witness:
  "parseCSVLine example_line_quoted = [''a,b'', ''c'']
   \<and> split_positions example_line_quoted = [5]
   \<and> in_quotes example_line_quoted 2
   \<and> 2 \<notin> set (split_positions example_line_quoted)
   \<and> parseCSVLine example_line_doubled = [''x'', ''a,b'', ''y'']
   \<and> split_positions example_line_doubled = [1, 9]
   \<and> in_quotes example_line_doubled 4"
proof -
  have p1: "split_positions example_line_quoted = [5]"
    and p2: "split_positions example_line_doubled = [1, 9]"
    by code_simp+
  have c1: "columns_at example_line_quoted [5] = [''a,b'', ''c'']"
    and c2: "columns_at example_line_doubled [1, 9] = [''x'', ''a,b'', ''y'']"
    by code_simp+
  have q1: "in_quotes example_line_quoted 2" and q2: "in_quotes example_line_doubled 4"
    by code_simp+
  have "parseCSVLine example_line_quoted = columns_at example_line_quoted (split_positions example_line_quoted)"
    using parseCSVLine_toggle [of example_line_quoted] by blast
  moreover have "parseCSVLine example_line_doubled = columns_at example_line_doubled (split_positions example_line_doubled)"
    using parseCSVLine_toggle [of example_line_doubled] by blast
  ultimately show ?thesis
    using p1 p2 c1 c2 q1 q2 by simp
qed

subsection \<open>Filter engine: the loop over the field filters\<close>

lemma fieldFilters_loop_all_ok:
  "\<forall>kv \<in> set ff. field_check P cat r (fst kv) (snd kv) \<noteq> Some True
   \<Longrightarrow> fieldFilters_loop P cat r ff = (\<forall>kv \<in> set ff. field_filter_ok P cat r kv)"
proof (induction ff)
  case Nil
  show ?case by simp
next
  case (Cons kv ff)
  obtain k v where kv: "kv = (k, v)" by (cases kv)
  show ?case
  proof (cases "field_check P cat r k v")
    case None
    then show ?thesis using Cons kv by (simp add: field_filter_ok_def)
  next
    case (Some b)
    then have "b = False" using Cons.prems kv by auto
    then show ?thesis using Some kv by (simp add: field_filter_ok_def)
  qed
qed

text \<open>
  As long as no entry of \<open>fieldFilters\<close> meets a relation array holding the wildcard, the
  callback is the conjunction of the creator test, the two date tests and every field
  filter.
\<close>

lemma passes_filters_conjunction:
  assumes "\<forall>kv \<in> set (fieldFilters fs). field_check P cat r (fst kv) (snd kv) \<noteq> Some True"
  shows "passes_filters P fs (Some cat) r =
           (creator_ok P fs r
            \<and> \<not> rejected_by_dateFrom P (filterDateFrom fs) (createdAt r)
            \<and> \<not> rejected_by_dateTo P (filterDateTo fs) (createdAt r)
            \<and> (\<forall>kv \<in> set (fieldFilters fs). field_filter_ok P cat r kv))"
  using fieldFilters_loop_all_ok [OF assms]
  by (auto simp: passes_filters_def creator_ok_def)

text \<open>
  C1. The filters are not conjoined when a relation field holds the wildcard. The record
  \<open>example_resource\<close> stores \<open>["all"]\<close> under its project field and \<open>"true"\<close> under its
  boolean field; with the filters project = \<open>P1\<close> and boolean = \<open>false\<close> the boolean
  filter fails the record, yet the callback returns \<open>true\<close> in the pass for the project
  field and the record is kept.
\<close>

theorem wildcard_skips_later_filters:
  "\<not> field_filter_ok P example_category example_resource (''active_key'', ''false'')
   \<and> filteredResources P example_filters (Some example_category) [example_resource]
       = [example_resource]"
  by (simp add: field_filter_ok_def field_check_def filteredResources_def passes_filters_def
      rejected_by_dateFrom_def rejected_by_dateTo_def get_prop_def
      example_category_def example_resource_def example_filters_def)

subsection \<open>Filter engine: relation fields\<close>

lemma field_check_relation:
  assumes "find (\<lambda>f. key f = k) (cat_fields cat) = Some fd"
    and "ftype fd = T_user \<or> ftype fd = T_project"
    and "filterVal \<noteq> []"
    and "data r = Some d"
  shows "field_check P cat r k filterVal =
     (if get_prop d k = Undefined \<or> get_prop d k = Null then Some False
      else case get_prop d k of
          Arr xs \<Rightarrow>
            if Str ''all'' \<in> set xs then Some True
            else if Str filterVal \<notin> set xs then Some False
            else None
        | _ \<Rightarrow>
            if toStr P (get_prop d k) \<noteq> ''all'' \<and> toStr P (get_prop d k) \<noteq> filterVal
            then Some False else None)"
  using assms by (auto simp: field_check_def Let_def)

lemma fieldFilters_loop_prefix:
  "\<forall>kv \<in> set pre. field_check P cat r (fst kv) (snd kv) = None
   \<Longrightarrow> fieldFilters_loop P cat r (pre @ rest) = fieldFilters_loop P cat r rest"
  by (induction pre) auto

lemma passes_filters_at:
  assumes "creator_ok P fs r"
    and "\<not> rejected_by_dateFrom P (filterDateFrom fs) (createdAt r)"
    and "\<not> rejected_by_dateTo P (filterDateTo fs) (createdAt r)"
    and "fieldFilters fs = pre @ (k, v) # post"
    and "\<forall>kv \<in> set pre. field_check P cat r (fst kv) (snd kv) = None"
  shows "passes_filters P fs (Some cat) r
           = (case field_check P cat r k v of
                Some b \<Rightarrow> b
              | None \<Rightarrow> fieldFilters_loop P cat r post)"
  using assms(1-3) fieldFilters_loop_prefix [OF assms(5), of "(k, v) # post"]
  by (auto simp: passes_filters_def creator_ok_def assms(4))

text \<open>
  C2. Take a field of type user or project with a non-empty filter value, and a record
  that passes the creator and date tests and for which the loop over the field filters
  reaches this one: no filter enumerated before it ends the loop. If the stored value is an array that contains \<open>"all"\<close>, the record is in the
  filtered list whatever the filter value is. If it is an array without \<open>"all"\<close>, the
  record is in the filtered list iff the filter value is one of its elements and the
  record passes the field filters enumerated after this one. If it is a string, the
  record is in the filtered list iff the string is \<open>"all"\<close> or the filter value and the
  record passes the later field filters. Any other stored value that is not an array is
  compared through its string conversion, and \<open>undefined\<close> and \<open>null\<close> never match.
  When this is the only field filter, the later filters are none and always passed.
\<close>

theorem relation_filter:
  assumes fd: "find (\<lambda>f. key f = k) (cat_fields cat) = Some fd"
    and ty: "ftype fd = T_user \<or> ftype fd = T_project"
    and nz: "filterVal \<noteq> []"
    and dt: "data r = Some d"
    and cr: "creator_ok P fs r"
    and df: "\<not> rejected_by_dateFrom P (filterDateFrom fs) (createdAt r)"
    and dto: "\<not> rejected_by_dateTo P (filterDateTo fs) (createdAt r)"
    and ff: "fieldFilters fs = pre @ (k, filterVal) # post"
    and pre: "\<forall>kv \<in> set pre. field_check P cat r (fst kv) (snd kv) = None"
  shows "(\<forall>xs. get_prop d k = Arr xs \<and> Str ''all'' \<in> set xs \<longrightarrow>
            (r \<in> set (filteredResources P fs (Some cat) rs)) = (r \<in> set rs))
       \<and> (\<forall>xs. get_prop d k = Arr xs \<and> Str ''all'' \<notin> set xs \<longrightarrow>
            (r \<in> set (filteredResources P fs (Some cat) rs))
              = (r \<in> set rs \<and> Str filterVal \<in> set xs \<and> fieldFilters_loop P cat r post))
       \<and> (\<forall>s. get_prop d k = Str s \<longrightarrow>
            (r \<in> set (filteredResources P fs (Some cat) rs))
              = (r \<in> set rs \<and> (s = ''all'' \<or> s = filterVal) \<and> fieldFilters_loop P cat r post))
       \<and> ((\<forall>xs. get_prop d k \<noteq> Arr xs) \<longrightarrow>
            (r \<in> set (filteredResources P fs (Some cat) rs))
              = (r \<in> set rs \<and> get_prop d k \<noteq> Undefined \<and> get_prop d k \<noteq> Null
                 \<and> (toStr P (get_prop d k) = ''all'' \<or> toStr P (get_prop d k) = filterVal)
                 \<and> fieldFilters_loop P cat r post))"
proof -
  note fc = field_check_relation [OF fd ty nz dt, of P]
  have m: "(r \<in> set (filteredResources P fs (Some cat) rs))
             = (r \<in> set rs
                \<and> (case field_check P cat r k filterVal of
                      Some b \<Rightarrow> b
                    | None \<Rightarrow> fieldFilters_loop P cat r post))"
    using passes_filters_at [OF cr df dto ff pre] by (simp add: filteredResources_def)
  have a: "(r \<in> set (filteredResources P fs (Some cat) rs)) = (r \<in> set rs)"
    if "get_prop d k = Arr xs" "Str ''all'' \<in> set xs" for xs
    unfolding m using that by (simp add: fc)
  have b: "(r \<in> set (filteredResources P fs (Some cat) rs))
             = (r \<in> set rs \<and> Str filterVal \<in> set xs \<and> fieldFilters_loop P cat r post)"
    if "get_prop d k = Arr xs" "Str ''all'' \<notin> set xs" for xs
    unfolding m using that by (simp add: fc)
  have c: "(r \<in> set (filteredResources P fs (Some cat) rs))
             = (r \<in> set rs \<and> (s = ''all'' \<or> s = filterVal) \<and> fieldFilters_loop P cat r post)"
    if "get_prop d k = Str s" for s
    unfolding m using that by (auto simp: fc)
  have e: "(r \<in> set (filteredResources P fs (Some cat) rs))
              = (r \<in> set rs \<and> get_prop d k \<noteq> Undefined \<and> get_prop d k \<noteq> Null
                 \<and> (toStr P (get_prop d k) = ''all'' \<or> toStr P (get_prop d k) = filterVal)
                 \<and> fieldFilters_loop P cat r post)"
    if "\<forall>xs. get_prop d k \<noteq> Arr xs"
    unfolding m using that by (cases "get_prop d k") (auto simp: fc)
  show ?thesis using a b c e by blast
qed

theorem relation_filter_witness:
  "project_record ''r2'' (Arr [Str ''P7'', Str ''all''])
     \<in> set (filteredResources example_platform example_project_filter (Some example_category)
              example_project_records)
   \<and> project_record ''r3'' (Arr [Str ''P7'', Str ''P1''])
     \<in> set (filteredResources example_platform example_project_filter (Some example_category)
              example_project_records)
   \<and> project_record ''r4'' (Arr [Str ''P7''])
     \<notin> set (filteredResources example_platform example_project_filter (Some example_category)
              example_project_records)
   \<and> project_record ''r5'' (Str ''all'')
     \<in> set (filteredResources example_platform example_project_filter (Some example_category)
              example_project_records)
   \<and> project_record ''r6'' (Str ''P7'')
     \<notin> set (filteredResources example_platform example_project_filter (Some example_category)
              example_project_records)"
proof -
  let ?fd = "\<lparr>field_id = ''f2'', name = ''Project'', key = ''proj_key'', ftype = T_project, required = False\<rparr>"
  have f: "find (\<lambda>f. key f = ''proj_key'') (cat_fields example_category) = Some ?fd"
    by (simp add: example_category_def)
  have t: "ftype ?fd = T_user \<or> ftype ?fd = T_project" by simp
  have n: "''P1'' \<noteq> []" by simp
  have dt: "data (project_record i v :: int ResourceItem) = Some (map_of [(''proj_key'', v)])" for i v
    by (simp add: project_record_def)
  have cr: "creator_ok example_platform example_project_filter r" for r :: "int ResourceItem"
    by (simp add: creator_ok_def example_project_filter_def)
  have df: "\<not> rejected_by_dateFrom example_platform (filterDateFrom example_project_filter) x"
    and dto: "\<not> rejected_by_dateTo example_platform (filterDateTo example_project_filter) x" for x
    by (simp_all add: rejected_by_dateFrom_def rejected_by_dateTo_def example_project_filter_def)
  have ff: "fieldFilters example_project_filter = [] @ (''proj_key'', ''P1'') # []"
    by (simp add: example_project_filter_def)
  have pre: "\<forall>kv \<in> set []. field_check example_platform example_category r (fst kv) (snd kv) = None"
    for r :: "int ResourceItem"
    by simp
  note th = relation_filter [where rs = "example_project_records :: int ResourceItem list",
      OF f t n _ cr df dto ff pre]
  have mem:
    "project_record ''r2'' (Arr [Str ''P7'', Str ''all'']) \<in> set (example_project_records :: int ResourceItem list)"
    "project_record ''r3'' (Arr [Str ''P7'', Str ''P1'']) \<in> set (example_project_records :: int ResourceItem list)"
    "project_record ''r4'' (Arr [Str ''P7'']) \<in> set (example_project_records :: int ResourceItem list)"
    "project_record ''r5'' (Str ''all'') \<in> set (example_project_records :: int ResourceItem list)"
    "project_record ''r6'' (Str ''P7'') \<in> set (example_project_records :: int ResourceItem list)"
    by (simp_all add: example_project_records_def)
  show ?thesis
    using
      th [OF dt [of "''r2''" "Arr [Str ''P7'', Str ''all'']"]]
      th [OF dt [of "''r3''" "Arr [Str ''P7'', Str ''P1'']"]]
      th [OF dt [of "''r4''" "Arr [Str ''P7'']"]]
      th [OF dt [of "''r5''" "Str ''all''"]]
      th [OF dt [of "''r6''" "Str ''P7''"]]
    by (simp add: get_prop_def mem)
qed

subsection \<open>Filter engine: the creation-date range\<close>

lemma int_div_eq_iff:
  assumes "0 < (D::int)"
  shows "(x div D = d) = (d * D \<le> x \<and> x < d * D + D)"
proof
  assume e: "x div D = d"
  have "x = D * (x div D) + x mod D" by simp
  then have x: "x = d * D + x mod D" using e by (simp add: mult.commute)
  have "0 \<le> x mod D" "x mod D < D" using assms by simp_all
  then show "d * D \<le> x \<and> x < d * D + D" using x by linarith
next
  assume h: "d * D \<le> x \<and> x < d * D + D"
  define r where "r = x - d * D"
  have "0 \<le> r" "r < D" using h by (simp_all add: r_def)
  then have "r div D = 0" by simp
  moreover have "x = r + d * D" by (simp add: r_def)
  then have "x div D = r div D + d" using assms by simp
  ultimately show "x div D = d" by simp
qed

lemma msPerDay_pos: "0 < msPerDay"
  by (simp add: msPerDay_def)

lemma setHours_date_only:
  "setHours P h m s ms (d * msPerDay)
     = (d + LocalTZA P div msPerDay) * msPerDay + (h * 3600000 + m * 60000 + s * 1000 + ms) - LocalTZA P"
proof -
  have "(d * msPerDay + LocalTZA P) div msPerDay = d + LocalTZA P div msPerDay"
    using msPerDay_pos by simp
  then show ?thesis by (simp add: setHours_def)
qed

lemma localDay_bounds:
  "(startOfLocalDay P d \<le> t \<and> t \<le> endOfLocalDay P d) = (localDay P t = d)"
  unfolding startOfLocalDay_def endOfLocalDay_def localDay_def
  using int_div_eq_iff [OF msPerDay_pos, of "t + LocalTZA P" d] by auto

text \<open>
  The range the two date tests accept, when both filter strings are date-only strings:
  it runs from the start of a local day to the end of a local day, but the days are the
  filter's days shifted by the whole days in the offset of local time from UTC.
\<close>

lemma date_filter_by_offset:
  assumes "denotes_day P dateFrom dF" and "denotes_day P dateTo dT"
  shows "(\<not> rejected_by_dateFrom P dateFrom t \<and> \<not> rejected_by_dateTo P dateTo t)
           = (startOfLocalDay P (dF + LocalTZA P div msPerDay) \<le> t
              \<and> t \<le> endOfLocalDay P (dT + LocalTZA P div msPerDay))"
proof -
  have a: "rejected_by_dateFrom P dateFrom t
             = (t < startOfLocalDay P (dF + LocalTZA P div msPerDay))"
    using assms(1)
    by (simp add: denotes_day_def rejected_by_dateFrom_def setHours_date_only startOfLocalDay_def)
  have e: "setHours P 23 59 59 999 (dT * msPerDay)
             = endOfLocalDay P (dT + LocalTZA P div msPerDay)"
    unfolding setHours_date_only endOfLocalDay_def by (simp add: msPerDay_def)
  have b: "rejected_by_dateTo P dateTo t
             = (t > endOfLocalDay P (dT + LocalTZA P div msPerDay))"
    using assms(2) by (simp add: denotes_day_def rejected_by_dateTo_def e)
  show ?thesis unfolding a b by auto
qed

text \<open>At and east of UTC the accepted range is the one the filter names.\<close>

lemma date_filter_east_of_UTC:
  assumes tz: "0 \<le> LocalTZA P" "LocalTZA P < msPerDay"
    and "denotes_day P dateFrom dF" and "denotes_day P dateTo dT"
  shows "(\<not> rejected_by_dateFrom P dateFrom t \<and> \<not> rejected_by_dateTo P dateTo t)
           = (startOfLocalDay P dF \<le> t \<and> t \<le> endOfLocalDay P dT)"
proof -
  have z: "LocalTZA P div msPerDay = 0" using tz by simp
  show ?thesis using date_filter_by_offset [OF assms(3,4), of t] by (simp add: z)
qed

text \<open>West of UTC it is the range of the days before.\<close>

lemma date_filter_west_of_UTC:
  assumes tz: "LocalTZA P < 0" "- msPerDay \<le> LocalTZA P"
    and "denotes_day P dateFrom dF" and "denotes_day P dateTo dT"
  shows "(\<not> rejected_by_dateFrom P dateFrom t \<and> \<not> rejected_by_dateTo P dateTo t)
           = (startOfLocalDay P (dF - 1) \<le> t \<and> t \<le> endOfLocalDay P (dT - 1))"
proof -
  have "LocalTZA P div msPerDay = - 1"
    using tz msPerDay_pos by (simp add: int_div_eq_iff)
  then show ?thesis using date_filter_by_offset [OF assms(3,4), of t] by simp
qed

lemma parse_example_day: "parse_iso_date ''1970-01-02'' = Some (1 * msPerDay)"
  by (simp add: parse_iso_date_def digit_val_def days_from_civil_def msPerDay_def)

text \<open>
  C5. In a time zone west of UTC (here UTC-5) the filter from \<open>1970-01-02\<close> to
  \<open>1970-01-02\<close> does not return the records of that day. \<open>example_resource\<close> was
  created at local noon of 2 January 1970, inside the day, and is rejected; a record
  created at local noon of 1 January is returned.
\<close>

theorem same_day_filter_west_of_UTC:
  "denotes_day (example_platform_at (- 18000000)) ''1970-01-02'' 1
   \<and> localDay (example_platform_at (- 18000000)) (createdAt (example_resource :: int ResourceItem)) = 1
   \<and> filteredResources (example_platform_at (- 18000000)) example_day_filters None
        [example_resource] = []
   \<and> localDay (example_platform_at (- 18000000)) 61200000 = 0
   \<and> filteredResources (example_platform_at (- 18000000)) example_day_filters None
        [example_resource\<lparr>createdAt := 61200000\<rparr>] = [example_resource\<lparr>createdAt := 61200000\<rparr>]"
  by (simp add: denotes_day_def localDay_def filteredResources_def passes_filters_def
      rejected_by_dateFrom_def rejected_by_dateTo_def setHours_def parse_example_day
      example_platform_at_def example_resource_def example_day_filters_def msPerDay_def)

subsection \<open>Saving a record through the form\<close>

lemma is_blank_iff: "is_blank v = missing_or_empty v"
  by (cases v) (auto simp: is_blank_def missing_or_empty_def)

lemma first_blank_required_None:
  "(first_blank_required fd fs = None)
     = (\<forall>g \<in> set fs. \<not> (required g \<and> missing_or_empty (get_prop fd (key g))))"
  by (induction fs) (auto simp: is_blank_iff)

lemma first_blank_required_first:
  assumes "fs = pre @ f # post"
    and "required f" and "missing_or_empty (get_prop fd (key f))"
    and "\<forall>g \<in> set pre. \<not> (required g \<and> missing_or_empty (get_prop fd (key g)))"
  shows "first_blank_required fd fs = Some f"
  using assms(4) unfolding assms(1)
  by (induction pre) (auto simp: is_blank_iff assms(2,3))

lemma handleSave_rejects:
  assumes "catToUse sel cats cr = Some cat"
    and "first_blank_required formData (cat_fields cat) = Some f"
  shows "DataManager_handleSave env uuid now u sel cats cr formData st
           = showToast (msg_please_enter @ name f) toast_error st"
  using assms by (simp add: DataManager_handleSave_def)

lemma handleSave_proceeds:
  assumes "catToUse sel cats cr = Some cat"
    and "first_blank_required formData (cat_fields cat) = None"
  shows "\<exists>res. data res = Some formData \<and> categoryId res = cat_id cat
           \<and> store_calls (DataManager_handleSave env uuid now u sel cats cr formData st)
               = store_calls st @ UpsertResource res
                   # (case resources_upsert_error env res of
                        None \<Rightarrow> [AuditLog UPDATE ''Resource'' (audit_resource_saved @ cat_id cat)]
                      | Some e \<Rightarrow> [])"
  using assms
  by (auto simp: DataManager_handleSave_def saveResource_def showToast_def Let_def
      split: option.splits)

text \<open>
  C4. Let \<open>cat\<close> be the category the form saves into. If a required field has a missing
  or empty value, the handler stops with one error toast that names the first such
  field in schema order, and makes no call to the store, whatever the other fields hold.
  If no required field is missing or empty, the handler sends the record, with the form
  data, to the store.
\<close>

theorem handleSave_required_fields:
  assumes "catToUse sel cats cr = Some cat"
  shows "(\<forall>pre f post.
            cat_fields cat = pre @ f # post
            \<and> required f \<and> missing_or_empty (get_prop formData (key f))
            \<and> (\<forall>g \<in> set pre. \<not> (required g \<and> missing_or_empty (get_prop formData (key g))))
            \<longrightarrow> DataManager_handleSave env uuid now u sel cats cr formData st
                  = showToast (msg_please_enter @ name f) toast_error st
                \<and> store_calls (DataManager_handleSave env uuid now u sel cats cr formData st)
                  = store_calls st)
       \<and> ((\<forall>g \<in> set (cat_fields cat).
               \<not> (required g \<and> missing_or_empty (get_prop formData (key g))))
            \<longrightarrow> (\<exists>res. data res = Some formData \<and> categoryId res = cat_id cat
                  \<and> store_calls (DataManager_handleSave env uuid now u sel cats cr formData st)
                      = store_calls st @ UpsertResource res
                          # (case resources_upsert_error env res of
                               None \<Rightarrow> [AuditLog UPDATE ''Resource''
                                          (audit_resource_saved @ cat_id cat)]
                             | Some e \<Rightarrow> [])))"
proof (intro conjI allI impI)
  fix pre f post
  assume h: "cat_fields cat = pre @ f # post
            \<and> required f \<and> missing_or_empty (get_prop formData (key f))
            \<and> (\<forall>g \<in> set pre. \<not> (required g \<and> missing_or_empty (get_prop formData (key g))))"
  then have "first_blank_required formData (cat_fields cat) = Some f"
    using first_blank_required_first [of "cat_fields cat" pre f post formData] by blast
  then have r: "DataManager_handleSave env uuid now u sel cats cr formData st
                  = showToast (msg_please_enter @ name f) toast_error st"
    by (rule handleSave_rejects [OF assms])
  show "DataManager_handleSave env uuid now u sel cats cr formData st
          = showToast (msg_please_enter @ name f) toast_error st"
    by (rule r)
  show "store_calls (DataManager_handleSave env uuid now u sel cats cr formData st)
          = store_calls st"
    unfolding r by (simp add: showToast_def)
next
  assume "\<forall>g \<in> set (cat_fields cat).
            \<not> (required g \<and> missing_or_empty (get_prop formData (key g)))"
  then have "first_blank_required formData (cat_fields cat) = None"
    by (simp add: first_blank_required_None)
  then show "\<exists>res. data res = Some formData \<and> categoryId res = cat_id cat
                  \<and> store_calls (DataManager_handleSave env uuid now u sel cats cr formData st)
                      = store_calls st @ UpsertResource res
                          # (case resources_upsert_error env res of
                               None \<Rightarrow> [AuditLog UPDATE ''Resource''
                                          (audit_resource_saved @ cat_id cat)]
                             | Some e \<Rightarrow> [])"
    by (rule handleSave_proceeds [OF assms])
qed

text \<open>
  The scenario of the specification: \<open>example_category\<close> has the required text field
  \<open>Name\<close>. Saving the empty form fails and names \<open>Name\<close>; saving a form with a name
  reaches the store.
\<close>

theorem handleSave_required_fields_witness:
  "DataManager_handleSave (example_remote :: int remote) ''id-1'' 1000 example_user
       (Some example_category) [] \<lparr>cr_id = None, cr_categoryId = None, cr_createdBy = None, cr_createdAt = None\<rparr>
       Map.empty example_state
     = showToast (msg_please_enter @ ''Name'') toast_error example_state
   \<and> (\<exists>res. data res = Some [''name_key'' \<mapsto> Str ''Laptop'']
         \<and> store_calls (DataManager_handleSave (example_remote :: int remote) ''id-1'' 1000
               example_user (Some example_category) []
               \<lparr>cr_id = None, cr_categoryId = None, cr_createdBy = None, cr_createdAt = None\<rparr>
               [''name_key'' \<mapsto> Str ''Laptop''] example_state)
             = [UpsertResource res, AuditLog UPDATE ''Resource'' (audit_resource_saved @ ''c1'')])"
proof -
  let ?cr = "\<lparr>cr_id = None, cr_categoryId = None, cr_createdBy = None, cr_createdAt = None\<rparr>"
  let ?f = "\<lparr>field_id = ''f1'', name = ''Name'', key = ''name_key'', ftype = T_text, required = True\<rparr>"
  have c: "catToUse (Some example_category) [] ?cr = Some example_category"
    by (simp add: catToUse_def)
  have a: "cat_fields example_category = [] @ ?f # tl (cat_fields example_category)
            \<and> required ?f \<and> missing_or_empty (get_prop Map.empty (key ?f) :: int jsval)
            \<and> (\<forall>g \<in> set []. \<not> (required g \<and> missing_or_empty (get_prop Map.empty (key g) :: int jsval)))"
    by (simp add: example_category_def missing_or_empty_def get_prop_def)
  have b: "\<forall>g \<in> set (cat_fields example_category).
             \<not> (required g \<and> missing_or_empty (get_prop [''name_key'' \<mapsto> Str ''Laptop''] (key g) :: int jsval))"
    by (simp add: example_category_def missing_or_empty_def get_prop_def)
  note t1 = handleSave_required_fields [OF c, of Map.empty example_remote "''id-1''" 1000
      example_user example_state, THEN conjunct1, rule_format, OF a]
  note t2 = handleSave_required_fields [OF c, of "[''name_key'' \<mapsto> Str ''Laptop'']"
      example_remote "''id-1''" 1000 example_user example_state, THEN conjunct2, THEN mp, OF b]
  have r: "resources_upsert_error (example_remote :: int remote) res = None" for res
    by (simp add: example_remote_def)
  have s: "store_calls (example_state :: int view_state) = []"
    by (simp add: example_state_def)
  have i: "cat_id example_category = ''c1''"
    by (simp add: example_category_def)
  show ?thesis using t1 t2 by (auto simp: r s i)
qed

text \<open>
  C10. The test on a required field is true of \<open>undefined\<close>, the empty string and the
  empty array and of nothing else. So when every required field holds some other value
  (\<open>null\<close>, a number such as 0, \<open>false\<close>), the handler does not stop and sends the
  record to the store.
\<close>

theorem required_check_accepts_null:
  "(is_blank v = (v = Undefined \<or> v = Str [] \<or> v = Arr []))
   \<and> \<not> is_blank (Null :: 'n jsval)
   \<and> (catToUse sel cats cr = Some cat
        \<and> (\<forall>g \<in> set (cat_fields cat). required g \<longrightarrow>
               get_prop formData (key g) \<noteq> Undefined
               \<and> get_prop formData (key g) \<noteq> Str []
               \<and> get_prop formData (key g) \<noteq> Arr [])
      \<longrightarrow> (\<exists>res. data res = Some formData
            \<and> store_calls (DataManager_handleSave env uuid now u sel cats cr formData st)
                = store_calls st @ UpsertResource res
                    # (case resources_upsert_error env res of
                         None \<Rightarrow> [AuditLog UPDATE ''Resource'' (audit_resource_saved @ cat_id cat)]
                       | Some e \<Rightarrow> [])))"
proof (intro conjI impI)
  show "is_blank v = (v = Undefined \<or> v = Str [] \<or> v = Arr [])"
    by (simp add: is_blank_iff missing_or_empty_def)
  show "\<not> is_blank (Null :: 'n jsval)"
    by (simp add: is_blank_def)
next
  assume h: "catToUse sel cats cr = Some cat
        \<and> (\<forall>g \<in> set (cat_fields cat). required g \<longrightarrow>
               get_prop formData (key g) \<noteq> Undefined
               \<and> get_prop formData (key g) \<noteq> Str []
               \<and> get_prop formData (key g) \<noteq> Arr [])"
  then have "first_blank_required formData (cat_fields cat) = None"
    by (auto simp: first_blank_required_None missing_or_empty_def)
  then show "\<exists>res. data res = Some formData
            \<and> store_calls (DataManager_handleSave env uuid now u sel cats cr formData st)
                = store_calls st @ UpsertResource res
                    # (case resources_upsert_error env res of
                         None \<Rightarrow> [AuditLog UPDATE ''Resource'' (audit_resource_saved @ cat_id cat)]
                       | Some e \<Rightarrow> [])"
    using handleSave_proceeds [of sel cats cr cat formData env uuid now u st] h by blast
qed

theorem required_check_accepts_null_witness:
  "\<not> is_blank (Null :: int jsval)
   \<and> (\<exists>res. data res = Some [''name_key'' \<mapsto> Null]
         \<and> store_calls (DataManager_handleSave (example_remote :: int remote) ''id-1'' 1000
               example_user (Some example_category) []
               \<lparr>cr_id = None, cr_categoryId = None, cr_createdBy = None, cr_createdAt = None\<rparr>
               [''name_key'' \<mapsto> Null] example_state)
             = [UpsertResource res, AuditLog UPDATE ''Resource'' (audit_resource_saved @ ''c1'')])"
proof -
  let ?cr = "\<lparr>cr_id = None, cr_categoryId = None, cr_createdBy = None, cr_createdAt = None\<rparr>"
  have c: "catToUse (Some example_category) [] ?cr = Some example_category"
    by (simp add: catToUse_def)
  have b: "\<forall>g \<in> set (cat_fields example_category). required g \<longrightarrow>
             get_prop [''name_key'' \<mapsto> (Null :: int jsval)] (key g) \<noteq> Undefined
             \<and> get_prop [''name_key'' \<mapsto> (Null :: int jsval)] (key g) \<noteq> Str []
             \<and> get_prop [''name_key'' \<mapsto> (Null :: int jsval)] (key g) \<noteq> Arr []"
    by (simp add: example_category_def get_prop_def)
  note t = required_check_accepts_null [of "Null :: int jsval" "Some example_category" "[]" ?cr
      example_category "[''name_key'' \<mapsto> Null]" example_remote "''id-1''" 1000 example_user
      example_state]
  have r: "resources_upsert_error (example_remote :: int remote) res = None" for res
    by (simp add: example_remote_def)
  have s: "store_calls (example_state :: int view_state) = []"
    by (simp add: example_state_def)
  have i: "cat_id example_category = ''c1''"
    by (simp add: example_category_def)
  from t c b have e: "\<exists>res. data res = Some [''name_key'' \<mapsto> Null]
            \<and> store_calls (DataManager_handleSave (example_remote :: int remote) ''id-1'' 1000
                  example_user (Some example_category) [] ?cr [''name_key'' \<mapsto> Null]
                  example_state)
                = store_calls (example_state :: int view_state) @ UpsertResource res
                    # (case resources_upsert_error (example_remote :: int remote) res of
                         None \<Rightarrow> [AuditLog UPDATE ''Resource''
                                    (audit_resource_saved @ cat_id example_category)]
                       | Some e \<Rightarrow> [])"
    by blast
  have n: "\<not> is_blank (Null :: int jsval)" using t by blast
  show ?thesis using e n by (auto simp: r s i)
qed

subsection \<open>Saving a project\<close>

lemma checkCodeExists_iff:
  "checkCodeExists env c excludeId =
     (projects_select_error env = None
      \<and> (\<exists>p \<in> set (projects_rows env).
            code p = c \<and> (if truthy_str excludeId then proj_id p \<noteq> the excludeId else True)))"
  by (cases "projects_select_error env")
    (auto simp: checkCodeExists_def Let_def filter_empty_conv)

lemma ProjectManager_handleSave_exists:
  assumes "\<not> blank_after_trim (pd_code p)" and "\<not> blank_after_trim (pd_name p)"
    and "checkCodeExists env (the (pd_code p)) (pd_id p)"
  shows "ProjectManager_handleSave env p st = showToast msg_project_code_exists toast_error st"
  using assms by (simp add: ProjectManager_handleSave_def)

lemma ProjectManager_handleSave_saves:
  assumes "\<not> blank_after_trim (pd_code p)" and "\<not> blank_after_trim (pd_name p)"
    and "\<not> checkCodeExists env (the (pd_code p)) (pd_id p)"
  shows "\<exists>rest. store_calls (ProjectManager_handleSave env p st)
                  = store_calls st @ UpsertProject p # rest"
  using assms
  by (auto simp: ProjectManager_handleSave_def projectService_save_def showToast_def Let_def
      split: option.splits)

text \<open>
  C8. When the code and the name of the project are filled in and the existence check
  answers that a project with this code exists, the handler raises the duplicate-code
  error toast and does nothing else: the state is otherwise unchanged, and in particular
  no call that writes to the store was made.
\<close>

theorem duplicate_code_aborts_save:
  assumes "\<not> blank_after_trim (pd_code p)" and "\<not> blank_after_trim (pd_name p)"
    and "checkCodeExists env (the (pd_code p)) (pd_id p)"
  shows "ProjectManager_handleSave env p st
           = st\<lparr>toasts := toasts st @ [(msg_project_code_exists, toast_error)]\<rparr>
       \<and> store_calls (ProjectManager_handleSave env p st) = store_calls st
       \<and> isModalOpen (ProjectManager_handleSave env p st) = isModalOpen st"
  using ProjectManager_handleSave_exists [OF assms, of st] by (simp add: showToast_def)

lemma trim_example_code: "trim ''PRJ-001'' = ''PRJ-001''"
  by (simp add: trim_def trimStart_def trimEnd_def match_len_def ws_seqs_def)

lemma trim_example_name: "trim ''Beta'' = ''Beta''"
  by (simp add: trim_def trimStart_def trimEnd_def match_len_def ws_seqs_def)

theorem duplicate_code_aborts_save_witness:
  "checkCodeExists (example_remote :: int remote) ''PRJ-001'' None
   \<and> ProjectManager_handleSave (example_remote :: int remote) example_draft example_state
       = \<lparr>toasts = [(msg_project_code_exists, toast_error)], isModalOpen = True,
          loading = False, store_calls = []\<rparr>"
proof -
  have c: "\<not> blank_after_trim (pd_code example_draft)"
    by (simp add: blank_after_trim_def example_draft_def trim_example_code)
  have n: "\<not> blank_after_trim (pd_name example_draft)"
    by (simp add: blank_after_trim_def example_draft_def trim_example_name)
  have e: "checkCodeExists (example_remote :: int remote) (the (pd_code example_draft))
             (pd_id example_draft)"
    by (simp add: checkCodeExists_def example_remote_def example_draft_def truthy_str_def)
  show ?thesis
    using duplicate_code_aborts_save [OF c n e, of example_state] e
    by (simp add: example_state_def example_draft_def)
qed

text \<open>
  C9. When the query of the existence check answers with an error, \<open>checkCodeExists\<close>
  returns \<open>false\<close>, whatever rows the table holds; a save of a project whose code and
  name are filled in then goes on to the upsert.
\<close>

theorem checkCodeExists_fails_open:
  assumes "projects_select_error env = Some e"
  shows "\<not> checkCodeExists env c excludeId
       \<and> (\<not> blank_after_trim (pd_code p) \<and> \<not> blank_after_trim (pd_name p)
          \<longrightarrow> (\<exists>rest. store_calls (ProjectManager_handleSave env p st)
                        = store_calls st @ UpsertProject p # rest))"
proof -
  have n: "\<not> checkCodeExists env c' x" for c' x
    using assms by (simp add: checkCodeExists_def)
  show ?thesis
    using n ProjectManager_handleSave_saves [of p env st] by blast
qed

theorem checkCodeExists_fails_open_witness:
  "\<not> checkCodeExists ((example_remote :: int remote)\<lparr>projects_select_error := Some ''timeout''\<rparr>)
        ''PRJ-001'' None
   \<and> (\<exists>rest. store_calls (ProjectManager_handleSave
           ((example_remote :: int remote)\<lparr>projects_select_error := Some ''timeout''\<rparr>)
           example_draft example_state)
         = UpsertProject example_draft # rest)"
proof -
  have s: "projects_select_error ((example_remote :: int remote)\<lparr>projects_select_error := Some ''timeout''\<rparr>)
             = Some ''timeout''"
    by simp
  have c: "\<not> blank_after_trim (pd_code example_draft)"
    by (simp add: blank_after_trim_def example_draft_def trim_example_code)
  have n: "\<not> blank_after_trim (pd_name example_draft)"
    by (simp add: blank_after_trim_def example_draft_def trim_example_name)
  show ?thesis
    using checkCodeExists_fails_open [OF s, of "''PRJ-001''" None example_draft example_state] c n
    by (simp add: example_state_def)
qed

subsection \<open>Strings: split, join and trim\<close>

















subsection \<open>The line parser on well-formed cells\<close>









subsection \<open>The header line and the field map\<close>



lemma join_nonempty: "xs \<noteq> [] \<Longrightarrow> x \<in> set xs \<Longrightarrow> x \<noteq> [] \<Longrightarrow> join sep xs \<noteq> []"
  by (induction sep xs rule: join.induct) auto









subsection \<open>The lines of an exported file\<close>








subsection \<open>The columns of an exported line\<close>








subsection \<open>Importing an exported file\<close>




subsection \<open>The CSV round trip\<close>










end
